theory Spec2Isabelle
  imports Complex_Main
begin

section \<open>Python strings\<close>

text \<open>
  A Python \<open>str\<close> is modelled as a \<open>string\<close>, one \<open>char\<close> per character; the text handled
  by the pipeline is taken to be ASCII, so \<open>len\<close> is \<open>length\<close> and \<open>str.lower\<close> changes
  the letters \<open>A\<close> to \<open>Z\<close> only.
\<close>

definition lower_char :: "char \<Rightarrow> char" where
  "lower_char c =
     (case map_of (zip ''ABCDEFGHIJKLMNOPQRSTUVWXYZ'' ''abcdefghijklmnopqrstuvwxyz'') c of
        None \<Rightarrow> c
      | Some d \<Rightarrow> d)"

text \<open>\<open>s.lower()\<close>\<close>

definition lower :: "string \<Rightarrow> string" where
  "lower s = map lower_char s"

text \<open>\<open>text.startswith(k)\<close>, the helper of the substring test.\<close>

fun starts_with :: "string \<Rightarrow> string \<Rightarrow> bool" where
  "starts_with t [] = True"
| "starts_with [] (k # ks) = False"
| "starts_with (c # t) (k # ks) = (c = k \<and> starts_with t ks)"

text \<open>\<open>k in text\<close> for two strings: \<open>k\<close> occurs in \<open>text\<close> as a contiguous substring.\<close>

fun str_in :: "string \<Rightarrow> string \<Rightarrow> bool" where
  "str_in k [] = (k = [])"
| "str_in k (c # t) = (starts_with (c # t) k \<or> str_in k t)"

text \<open>The whitespace that \<open>str.strip()\<close> removes, in the ASCII range.\<close>

definition is_space :: "char \<Rightarrow> bool" where
  "is_space c = (c \<in> set [CHR '' '', CHR 0x09, CHR 0x0A, CHR 0x0B, CHR 0x0C, CHR 0x0D,
                           CHR 0x1C, CHR 0x1D, CHR 0x1E, CHR 0x1F])"

text \<open>\<open>s.strip()\<close>\<close>

definition strip :: "string \<Rightarrow> string" where
  "strip s = rev (dropWhile is_space (rev (dropWhile is_space s)))"

text \<open>\<open>s.replace(a, b)\<close> for single characters \<open>a\<close> and \<open>b\<close>.\<close>

definition replace_char :: "char \<Rightarrow> char \<Rightarrow> string \<Rightarrow> string" where
  "replace_char a b s = map (\<lambda>c. if c = a then b else c) s"

text \<open>\<open>s.split(c)\<close> for a single character separator: never the empty list.\<close>

fun split_on :: "char \<Rightarrow> string \<Rightarrow> string list" where
  "split_on c [] = [[]]"
| "split_on c (x # xs) =
     (if x = c then [] # split_on c xs
      else (case split_on c xs of
              [] \<Rightarrow> [[x]]
            | l # ls \<Rightarrow> (x # l) # ls))"

text \<open>\<open>sep.join(parts)\<close>\<close>

fun join :: "string \<Rightarrow> string list \<Rightarrow> string" where
  "join sep [] = []"
| "join sep [p] = p"
| "join sep (p # q # ps) = p @ sep @ join sep (q # ps)"

text \<open>\<open>str(n)\<close> for a natural number.\<close>

fun string_of_nat :: "nat \<Rightarrow> string" where
  "string_of_nat n =
     (if n < 10 then [''0123456789'' ! n]
      else string_of_nat (n div 10) @ [''0123456789'' ! (n mod 10)])"

declare string_of_nat.simps [simp del]

definition newline :: string where
  "newline = [CHR 0x0A]"

section \<open>Router agent: \<open>src/agents/router_agent.py\<close>\<close>

text \<open>
  The class constant \<open>TEAMS\<close>. A Python dict iterates in insertion order, so the table is an
  association list in the order of the source.
\<close>

definition TEAMS :: "(string \<times> string list) list" where
  "TEAMS =
     [(''platform'', [''kubernetes'', ''k8s'', ''pod'', ''deployment'', ''container'', ''docker'',
                      ''scaling'', ''orchestration'']),
      (''devops'', [''ci/cd'', ''pipeline'', ''jenkins'', ''gitlab'', ''monitoring'', ''prometheus'',
                    ''grafana'', ''alert'', ''automation'']),
      (''database'', [''postgres'', ''postgresql'', ''mysql'', ''database'', ''db'', ''sql'',
                      ''connection'', ''query'', ''performance'']),
      (''security'', [''ssl'', ''tls'', ''certificate'', ''auth'', ''access'', ''permission'',
                      ''vulnerability'', ''compliance'', ''firewall'']),
      (''network'', [''dns'', ''load balancer'', ''nginx'', ''connectivity'', ''network'',
                     ''routing'', ''port'', ''ip''])]"

text \<open>
  The inner loop of \<open>_keyword_match\<close>: \<open>team_scores[team] += 1\<close> once for every keyword of
  the team that occurs in the text.
\<close>

fun count_keywords :: "string \<Rightarrow> string list \<Rightarrow> nat \<Rightarrow> nat" where
  "count_keywords text [] score = score"
| "count_keywords text (keyword # kws) score =
     count_keywords text kws (if str_in keyword text then score + 1 else score)"

text \<open>The dict \<open>team_scores\<close> after both loops, in the iteration order of \<open>TEAMS\<close>.\<close>

definition team_scores :: "string \<Rightarrow> (string \<times> nat) list" where
  "team_scores text = map (\<lambda>(team, kws). (team, count_keywords text kws 0)) TEAMS"

text \<open>\<open>max(values)\<close> of a list of naturals that starts with \<open>v\<close>.\<close>

fun max_value :: "nat \<Rightarrow> nat list \<Rightarrow> nat" where
  "max_value v [] = v"
| "max_value v (x # xs) = max_value (if v < x then x else v) xs"

text \<open>
  \<open>max(d, key=d.get)\<close>: Python keeps the first entry whose key value is maximal, replacing
  the running best only by a strictly greater one.
\<close>

fun max_by_score :: "(string \<times> nat) \<Rightarrow> (string \<times> nat) list \<Rightarrow> (string \<times> nat)" where
  "max_by_score best [] = best"
| "max_by_score best (x # xs) = max_by_score (if snd best < snd x then x else best) xs"

text \<open>\<open>RouterAgent._keyword_match\<close>; \<open>None\<close> is Python's \<open>None\<close>.\<close>

definition keyword_match :: "string \<Rightarrow> string option" where
  "keyword_match text =
     (case team_scores text of
        [] \<Rightarrow> None
      | first # others \<Rightarrow>
          (let max_score = max_value (snd first) (map snd others)
           in if 0 < max_score then Some (fst (max_by_score first others)) else None))"

text \<open>\<open>RouterAgent._extract_team\<close>: the first team name found in the lower-cased response.\<close>

fun first_team_in :: "string \<Rightarrow> string list \<Rightarrow> string" where
  "first_team_in response_lower [] = ''platform''"
| "first_team_in response_lower (team # teams) =
     (if str_in team response_lower then team else first_team_in response_lower teams)"

definition extract_team :: "string \<Rightarrow> string" where
  "extract_team response = first_team_in (lower response) (map fst TEAMS)"

text \<open>
  The score as the specification words it, for comparison with \<open>count_keywords\<close>: the
  occurrences of the keywords in the text, every position at which a keyword starts
  counting once.
\<close>

fun spec_occurrences :: "string \<Rightarrow> string \<Rightarrow> nat" where
  "spec_occurrences k [] = 0"
| "spec_occurrences k (c # t) = (if starts_with (c # t) k then 1 else 0) + spec_occurrences k t"

definition spec_keyword_score :: "string \<Rightarrow> string list \<Rightarrow> nat" where
  "spec_keyword_score text kws = sum_list (map (\<lambda>k. spec_occurrences k text) kws)"

definition spec_team_scores :: "string \<Rightarrow> (string \<times> nat) list" where
  "spec_team_scores text = map (\<lambda>(team, kws). (team, spec_keyword_score text kws)) TEAMS"

section \<open>Relevance tiers: \<open>VectorStore.search\<close> in \<open>src/db/vector_store.py\<close>\<close>

text \<open>
  The distance is a Python float; it is modelled as a real number, and the thresholds
  \<open>0.3\<close> and \<open>0.6\<close> as the decimals the source writes.
\<close>

definition relevance_of :: "real \<Rightarrow> string" where
  "relevance_of distance =
     (if distance < 0.3 then ''high''
      else if distance < 0.6 then ''medium''
      else ''low'')"

section \<open>Collaborators, exceptions and state\<close>

text \<open>
  A Python exception is a value of type \<open>error\<close> carrying its message (\<open>str(e)\<close>). A call
  that may raise returns \<open>error + 'a\<close>, with \<open>Inl\<close> for the exception.
\<close>

datatype error =
    ModelCallError string
  | SearchBackendError string
  | CacheClientError string
  | JSONDecodeError string
  | TypeError string

fun str_of_error :: "error \<Rightarrow> string" where
  "str_of_error (ModelCallError msg) = msg"
| "str_of_error (SearchBackendError msg) = msg"
| "str_of_error (CacheClientError msg) = msg"
| "str_of_error (JSONDecodeError msg) = msg"
| "str_of_error (TypeError msg) = msg"

text \<open>
  A value that \<open>json.loads\<close> returns: \<open>None\<close>, a bool, a number, a string, a list or a dict
  (its items in insertion order, the keys distinct).
\<close>

datatype json =
    JNull
  | JBool bool
  | JNumber real
  | JString string
  | JArray "json list"
  | JObject "(string \<times> json) list"

text \<open>One entry of the list that \<open>VectorStore.search\<close> returns.\<close>

record kb_match =
  m_question :: string
  m_answer :: string
  m_team :: string
  m_tags :: json
  m_entry_id :: string
  m_score :: real
  m_relevance :: string

text \<open>
  One row of a ChromaDB query result: the metadata dict (a key may be absent) and the
  distance. The \<open>tags\<close> entry is stored as JSON text: \<open>Some (Inr v)\<close> is a text that
  \<open>json.loads\<close> reads as the value \<open>v\<close>, whatever its kind, and \<open>Some (Inl e)\<close> is an entry
  that \<open>json.loads\<close> rejects with \<open>e\<close>.
\<close>

record raw_hit =
  md_question :: "string option"
  md_answer :: "string option"
  md_team :: "string option"
  md_tags :: "(error + json) option"
  md_entry_id :: "string option"
  hit_distance :: real

text \<open>The calls that leave the process, in the order they are made.\<close>

datatype event =
    ClassifierCall string
  | CacheGet string
  | CacheSet string "kb_match list" nat
  | BackendQuery string nat
  | SynthesisCall string string
  | RouterCall string string

text \<open>
  The collaborators of one pipeline run: the three model chains, the vector collection
  (embedding and query together), whether the Redis server answers, and the clock.
\<close>

record world =
  classifier_chain :: "string \<Rightarrow> error + string"
  knowledge_chain :: "string \<Rightarrow> string \<Rightarrow> error + string"
  router_chain :: "string \<Rightarrow> string \<Rightarrow> error + string"
  collection_query :: "string \<Rightarrow> nat \<Rightarrow> error + raw_hit list"
  redis_up :: bool
  utcnow :: string

text \<open>
  The mutable state: the Redis store (each key with its value and the TTL it was set with;
  the JSON round trip of a candidate list is the identity) and the trace of calls.
\<close>

record state =
  cache_store :: "string \<rightharpoonup> (kb_match list \<times> nat)"
  trace :: "event list"

type_synonym 'a prog = "state \<Rightarrow> (error + 'a) \<times> state"

definition ret :: "'a \<Rightarrow> 'a prog" where
  "ret x s = (Inr x, s)"

definition from_result :: "error + 'a \<Rightarrow> 'a prog" where
  "from_result r s = (r, s)"

definition then_do :: "'a prog \<Rightarrow> ('a \<Rightarrow> 'b prog) \<Rightarrow> 'b prog" where
  "then_do m f s = (case m s of (Inl e, s') \<Rightarrow> (Inl e, s') | (Inr x, s') \<Rightarrow> f x s')"

text \<open>\<open>try: m except Exception as e: h e\<close>\<close>

definition try_except :: "'a prog \<Rightarrow> (error \<Rightarrow> 'a prog) \<Rightarrow> 'a prog" where
  "try_except m h s = (case m s of (Inl e, s') \<Rightarrow> h e s' | (Inr x, s') \<Rightarrow> (Inr x, s'))"

definition emit :: "event \<Rightarrow> unit prog" where
  "emit ev s = (Inr (), s\<lparr>trace := trace s @ [ev]\<rparr>)"

section \<open>Redis cache: \<open>src/utils/cache.py\<close>\<close>

text \<open>\<open>self.client.get(key)\<close> followed by \<open>json.loads\<close>.\<close>

definition client_get :: "world \<Rightarrow> string \<Rightarrow> kb_match list option prog" where
  "client_get w key s =
     (if redis_up w then (Inr (map_option fst (cache_store s key)), s)
      else (Inl (CacheClientError ''connection refused''), s))"

text \<open>\<open>self.client.setex(key, ttl, json.dumps(value))\<close>\<close>

definition client_setex :: "world \<Rightarrow> string \<Rightarrow> nat \<Rightarrow> kb_match list \<Rightarrow> bool prog" where
  "client_setex w key ttl v s =
     (if redis_up w then (Inr True, s\<lparr>cache_store := (cache_store s)(key \<mapsto> (v, ttl))\<rparr>)
      else (Inl (CacheClientError ''connection refused''), s))"

text \<open>\<open>RedisCache.get\<close>\<close>

definition cache_get :: "world \<Rightarrow> string \<Rightarrow> kb_match list option prog" where
  "cache_get w key =
     try_except
       (then_do (emit (CacheGet key)) (\<lambda>_.
        then_do (client_get w key) (\<lambda>v.
          (case v of
             Some loaded \<Rightarrow> ret (Some loaded)
           | None \<Rightarrow> ret None))))
       (\<lambda>e. ret None)"

text \<open>\<open>RedisCache.set\<close>\<close>

definition cache_set :: "world \<Rightarrow> string \<Rightarrow> kb_match list \<Rightarrow> nat \<Rightarrow> bool prog" where
  "cache_set w key v ttl =
     try_except
       (then_do (emit (CacheSet key v ttl)) (\<lambda>_. client_setex w key ttl v))
       (\<lambda>e. ret False)"

section \<open>Vector store: \<open>src/db/vector_store.py\<close>\<close>

text \<open>\<open>d.get(key, default)\<close>, for a key whose value, when present, is \<open>v\<close>.\<close>

definition get_default :: "'a option \<Rightarrow> 'a \<Rightarrow> 'a" where
  "get_default v d = (case v of None \<Rightarrow> d | Some x \<Rightarrow> x)"

text \<open>
  The body of the loop in \<open>VectorStore.search\<close>, for one row. An absent \<open>tags\<close> entry is read
  as the text \<open>[]\<close>; whatever \<open>json.loads\<close> returns is passed on unchecked.
\<close>

definition format_hit :: "raw_hit \<Rightarrow> error + kb_match" where
  "format_hit h =
     (case get_default (md_tags h) (Inr (JArray [])) of
        Inl e \<Rightarrow> Inl e
      | Inr tags \<Rightarrow>
          Inr \<lparr>m_question = get_default (md_question h) [],
               m_answer = get_default (md_answer h) [],
               m_team = get_default (md_team h) [],
               m_tags = tags,
               m_entry_id = get_default (md_entry_id h) [],
               m_score = hit_distance h,
               m_relevance = relevance_of (hit_distance h)\<rparr>)"

fun format_hits :: "raw_hit list \<Rightarrow> error + kb_match list" where
  "format_hits [] = Inr []"
| "format_hits (h # hs) =
     (case format_hit h of
        Inl e \<Rightarrow> Inl e
      | Inr m \<Rightarrow> (case format_hits hs of Inl e \<Rightarrow> Inl e | Inr ms \<Rightarrow> Inr (m # ms)))"

text \<open>\<open>VectorStore.search\<close>\<close>

definition search :: "world \<Rightarrow> string \<Rightarrow> nat \<Rightarrow> kb_match list prog" where
  "search w query k =
     try_except
       (then_do (emit (BackendQuery query k)) (\<lambda>_.
        then_do (from_result (collection_query w query k)) (\<lambda>hits.
          from_result (format_hits hits))))
       (\<lambda>e. ret [])"

section \<open>Knowledge agent: \<open>src/agents/knowledge_agent.py\<close>\<close>

text \<open>
  The dict that \<open>answer_question\<close> returns. The keys \<open>search_attempted\<close>, \<open>all_results\<close>
  and \<open>error\<close> are present in some branches only (\<open>None\<close>: the key is absent); \<open>answer\<close>
  and \<open>source\<close> are always present and hold Python's \<open>None\<close> when nothing was found.
\<close>

record kb_result =
  kb_found :: bool
  kb_answer :: "string option"
  kb_source :: "kb_match option"
  kb_confidence :: string
  kb_search_attempted :: "bool option"
  kb_all_results :: "kb_match list option"
  kb_error :: "string option"

text \<open>\<open>KnowledgeAgent.search_knowledge_base\<close>; \<open>if cached_result:\<close> holds for a non-empty list.\<close>

definition search_knowledge_base :: "world \<Rightarrow> string \<Rightarrow> nat \<Rightarrow> kb_match list prog" where
  "search_knowledge_base w query k =
     (let cache_key = ''kb_search:'' @ query
      in then_do (cache_get w cache_key) (\<lambda>cached_result.
           (case cached_result of
              Some (r # rs) \<Rightarrow> ret (r # rs)
            | _ \<Rightarrow>
                then_do (search w query k) (\<lambda>results.
                  if results \<noteq> []
                  then then_do (cache_set w cache_key results 3600) (\<lambda>_. ret results)
                  else ret results))))"

text \<open>The condition of the list comprehension that builds \<open>high_relevance\<close>.\<close>

definition strict_gate :: "kb_match \<Rightarrow> bool" where
  "strict_gate r = (m_relevance r = ''high'' \<and> m_score r < 0.4)"

text \<open>
  The items that \<open>', '.join(tags)\<close> iterates over. A list must hold strings only, a string
  gives its characters and a dict its keys; \<open>None\<close>, a bool and a number are not iterable.
  Every other case raises \<open>TypeError\<close>.
\<close>

fun str_items :: "json list \<Rightarrow> error + string list" where
  "str_items [] = Inr []"
| "str_items (JString t # vs) =
     (case str_items vs of Inl e \<Rightarrow> Inl e | Inr ts \<Rightarrow> Inr (t # ts))"
| "str_items (v # vs) = Inl (TypeError ''sequence item: expected str instance'')"

fun join_items :: "json \<Rightarrow> error + string list" where
  "join_items (JArray vs) = str_items vs"
| "join_items (JString t) = Inr (map (\<lambda>c. [c]) t)"
| "join_items (JObject kvs) = Inr (map fst kvs)"
| "join_items v = Inl (TypeError ''can only join an iterable'')"

text \<open>One element of the list that is joined into \<open>formatted_results\<close>.\<close>

definition format_result :: "nat \<Rightarrow> kb_match \<Rightarrow> error + string" where
  "format_result i r =
     (case join_items (m_tags r) of
        Inl e \<Rightarrow> Inl e
      | Inr tags \<Rightarrow>
          Inr (''Result '' @ string_of_nat (i + 1) @ '':'' @ newline @
               ''Question: '' @ m_question r @ newline @
               ''Answer: '' @ m_answer r @ newline @
               ''Team: '' @ m_team r @ newline @
               ''Tags: '' @ join '', '' tags))"

text \<open>The list comprehension over \<open>enumerate(high_relevance)\<close>, from index \<open>i\<close> on.\<close>

fun format_each :: "nat \<Rightarrow> kb_match list \<Rightarrow> error + string list" where
  "format_each i [] = Inr []"
| "format_each i (r # rs) =
     (case format_result i r of
        Inl e \<Rightarrow> Inl e
      | Inr t \<Rightarrow> (case format_each (i + 1) rs of Inl e \<Rightarrow> Inl e | Inr ts \<Rightarrow> Inr (t # ts)))"

text \<open>The value of \<open>formatted_results\<close>, or the exception its computation raises.\<close>

definition format_results :: "kb_match list \<Rightarrow> error + string" where
  "format_results high_relevance =
     (case format_each 0 high_relevance of
        Inl e \<Rightarrow> Inl e
      | Inr parts \<Rightarrow> Inr (join (newline @ newline) parts))"

text \<open>\<open>self.chain.invoke\<close> of the knowledge agent.\<close>

definition invoke_knowledge_chain :: "world \<Rightarrow> string \<Rightarrow> string \<Rightarrow> string prog" where
  "invoke_knowledge_chain w question_text search_results =
     then_do (emit (SynthesisCall question_text search_results)) (\<lambda>_.
       from_result (knowledge_chain w question_text search_results))"

text \<open>
  \<open>KnowledgeAgent.answer_question\<close>. The survivors are formatted before the \<open>try\<close>, so an
  exception of the formatting leaves the function; only the model call is guarded.
\<close>

definition answer_question :: "world \<Rightarrow> string \<Rightarrow> kb_result prog" where
  "answer_question w question_text =
     then_do (search_knowledge_base w question_text 3) (\<lambda>search_results.
       if search_results = []
       then ret \<lparr>kb_found = False, kb_answer = None, kb_source = None,
                 kb_confidence = ''none'', kb_search_attempted = None,
                 kb_all_results = None, kb_error = None\<rparr>
       else
         (case filter strict_gate search_results of
            [] \<Rightarrow>
              ret \<lparr>kb_found = False, kb_answer = None, kb_source = None,
                   kb_confidence = ''low'', kb_search_attempted = Some True,
                   kb_all_results = None, kb_error = None\<rparr>
          | best_match # rest \<Rightarrow>
              then_do (from_result (format_results (best_match # rest)))
                (\<lambda>formatted_results.
                   try_except
                     (then_do
                        (invoke_knowledge_chain w question_text formatted_results)
                        (\<lambda>answer.
                           ret \<lparr>kb_found = True, kb_answer = Some answer,
                                kb_source = Some best_match,
                                kb_confidence = m_relevance best_match,
                                kb_search_attempted = None,
                                kb_all_results = Some (best_match # rest),
                                kb_error = None\<rparr>))
                     (\<lambda>e.
                        ret \<lparr>kb_found = False, kb_answer = None, kb_source = None,
                             kb_confidence = ''error'', kb_search_attempted = None,
                             kb_all_results = None, kb_error = Some (str_of_error e)\<rparr>))))"

section \<open>Routing: \<open>RouterAgent.route_inquiry\<close>\<close>

record routing_decision =
  r_team :: string
  r_method :: string
  r_confidence :: string
  r_reason :: string

definition invoke_router_chain :: "world \<Rightarrow> string \<Rightarrow> string \<Rightarrow> string prog" where
  "invoke_router_chain w question_text category =
     then_do (emit (RouterCall question_text category)) (\<lambda>_.
       from_result (router_chain w question_text category))"

text \<open>
  \<open>RouterAgent.route_inquiry\<close>. \<open>if keyword_team:\<close> holds for a team name that is neither
  \<open>None\<close> nor empty; \<open>category or "general"\<close> replaces the empty category.
\<close>

definition route_inquiry :: "world \<Rightarrow> string \<Rightarrow> string \<Rightarrow> routing_decision prog" where
  "route_inquiry w question_text category =
     (let keyword_team = keyword_match (lower question_text)
      in if keyword_team \<noteq> None \<and> keyword_team \<noteq> Some []
         then ret \<lparr>r_team = get_default keyword_team [], r_method = ''keyword'',
                   r_confidence = ''high'',
                   r_reason = ''Matched keywords for '' @ get_default keyword_team [] @ '' team''\<rparr>
         else
           try_except
             (then_do
                (invoke_router_chain w question_text
                   (if category = [] then ''general'' else category))
                (\<lambda>response.
                   ret \<lparr>r_team = extract_team response, r_method = ''llm'',
                        r_confidence = ''medium'', r_reason = strip response\<rparr>))
             (\<lambda>e.
                ret \<lparr>r_team = ''platform'', r_method = ''default'', r_confidence = ''low'',
                     r_reason = ''Default routing due to error''\<rparr>))"

section \<open>Supervisor: \<open>src/agents/supervisor.py\<close>\<close>

text \<open>The classification dict; \<open>None\<close> is an absent key.\<close>

record classification =
  c_urgency :: "string option"
  c_category :: "string option"
  c_needs_ticket :: "bool option"

definition empty_classification :: classification where
  "empty_classification = \<lparr>c_urgency = None, c_category = None, c_needs_ticket = None\<rparr>"

text \<open>The dict returned by the \<open>except\<close> branch of \<open>_classify_inquiry\<close>.\<close>

definition default_classification :: classification where
  "default_classification =
     \<lparr>c_urgency = Some ''medium'', c_category = Some ''other'', c_needs_ticket = Some True\<rparr>"

text \<open>The body of the parsing loop for one line of the response.\<close>

definition parse_line :: "string \<Rightarrow> classification \<Rightarrow> classification" where
  "parse_line line c =
     (if CHR '':'' \<in> set line
      then
        (let key = replace_char CHR ''_'' CHR '' ''
                     (lower (strip (takeWhile (\<lambda>ch. ch \<noteq> CHR '':'') line)));
             val = lower (strip (drop 1 (dropWhile (\<lambda>ch. ch \<noteq> CHR '':'') line)))
         in if str_in ''urgency'' key then c\<lparr>c_urgency := Some val\<rparr>
            else if str_in ''category'' key then c\<lparr>c_category := Some val\<rparr>
            else if str_in ''needs'' key \<or> str_in ''ticket'' key
              then c\<lparr>c_needs_ticket := Some (val = ''yes'')\<rparr>
            else c)
      else c)"

fun parse_lines :: "string list \<Rightarrow> classification \<Rightarrow> classification" where
  "parse_lines [] c = c"
| "parse_lines (line # rest) c = parse_lines rest (parse_line line c)"

definition parse_response :: "string \<Rightarrow> classification" where
  "parse_response response = parse_lines (split_on CHR 0x0A response) empty_classification"

definition invoke_classifier_chain :: "world \<Rightarrow> string \<Rightarrow> string prog" where
  "invoke_classifier_chain w question_text =
     then_do (emit (ClassifierCall question_text)) (\<lambda>_.
       from_result (classifier_chain w question_text))"

text \<open>\<open>SupervisorAgent._classify_inquiry\<close>\<close>

definition classify_inquiry :: "world \<Rightarrow> string \<Rightarrow> classification prog" where
  "classify_inquiry w question_text =
     try_except
       (then_do (invoke_classifier_chain w question_text) (\<lambda>response.
          ret (parse_response response)))
       (\<lambda>e. ret default_classification)"

text \<open>\<open>SupervisorAgent._urgency_to_priority\<close>\<close>

definition urgency_to_priority :: "string \<Rightarrow> string" where
  "urgency_to_priority urgency =
     get_default
       (map_of [(''low'', ''Low''), (''medium'', ''Medium''), (''high'', ''High''),
                (''critical'', ''Critical'')] (lower urgency))
       ''Medium''"

text \<open>\<open>x or d\<close> for an optional string: \<open>None\<close> and the empty string give \<open>d\<close>.\<close>

definition or_default :: "string option \<Rightarrow> string \<Rightarrow> string" where
  "or_default x d = (case x of None \<Rightarrow> d | Some v \<Rightarrow> (if v = [] then d else v))"

record ticket_details =
  t_summary :: string
  t_description :: string
  t_labels :: "string list"
  t_team :: string
  t_priority :: string

text \<open>\<open>SupervisorAgent._generate_ticket_details\<close>\<close>

definition generate_ticket_details ::
  "string \<Rightarrow> classification \<Rightarrow> string \<Rightarrow> string option \<Rightarrow> string option \<Rightarrow> ticket_details" where
  "generate_ticket_details question_text c team environment deadline =
     \<lparr>t_summary =
        (if 100 < length question_text then take 97 question_text @ ''...''
         else question_text),
      t_description =
        ''Infrastructure Inquiry'' @ newline @ newline @
        ''**Question:**'' @ newline @
        question_text @ newline @ newline @
        ''**Details:**'' @ newline @
        ''- Environment: '' @ or_default environment ''Not specified'' @ newline @
        ''- Deadline: '' @ or_default deadline ''Not specified'' @ newline @
        ''- Urgency: '' @ get_default (c_urgency c) ''medium'' @ newline @
        ''- Category: '' @ get_default (c_category c) ''general'' @ newline @ newline @
        ''**Assigned Team:** '' @ team @ newline @ newline @
        ''This ticket was automatically created by the Infrastructure Bot.'' @ newline,
      t_labels =
        [team, get_default (c_category c) ''general'', get_default (c_urgency c) ''medium'',
         ''automated'', ''infrastructure''],
      t_team = team,
      t_priority = urgency_to_priority (get_default (c_urgency c) ''medium'')\<rparr>"

text \<open>
  The dict that \<open>process_inquiry\<close> returns. The keys \<open>answer\<close>, \<open>source\<close>, \<open>routing\<close>,
  \<open>assigned_team\<close> and \<open>ticket_details\<close> are set in one branch only (\<open>None\<close>: the key is
  absent); \<open>answer\<close> and \<open>source\<close> copy the optional values of the knowledge result.
\<close>

record pipeline_result =
  res_timestamp :: string
  res_question :: string
  res_user_id :: string
  res_channel_id :: string
  res_environment :: "string option"
  res_deadline :: "string option"
  res_steps :: "string list"
  res_classification :: classification
  res_knowledge_base :: kb_result
  res_action :: string
  res_answer :: "string option option"
  res_source :: "kb_match option option"
  res_requires_ticket :: bool
  res_routing :: "routing_decision option"
  res_assigned_team :: "string option"
  res_ticket_details :: "ticket_details option"
  res_completed :: bool

text \<open>\<open>SupervisorAgent.process_inquiry\<close>\<close>

definition process_inquiry ::
  "world \<Rightarrow> string \<Rightarrow> string \<Rightarrow> string \<Rightarrow> string option \<Rightarrow> string option
     \<Rightarrow> pipeline_result prog" where
  "process_inquiry w question_text user_id channel_id environment deadline =
     then_do (classify_inquiry w question_text) (\<lambda>c.
     then_do (answer_question w question_text) (\<lambda>kb.
       if kb_found kb \<and> kb_confidence kb \<in> set [''high'', ''medium'']
       then
         ret \<lparr>res_timestamp = utcnow w, res_question = question_text,
              res_user_id = user_id, res_channel_id = channel_id,
              res_environment = environment, res_deadline = deadline,
              res_steps = [''classified'', ''searched_kb'', ''answered_from_kb''],
              res_classification = c, res_knowledge_base = kb,
              res_action = ''answer_from_kb'',
              res_answer = Some (kb_answer kb), res_source = Some (kb_source kb),
              res_requires_ticket = False,
              res_routing = None, res_assigned_team = None, res_ticket_details = None,
              res_completed = True\<rparr>
       else
         then_do (route_inquiry w question_text (get_default (c_category c) [])) (\<lambda>routing.
           ret \<lparr>res_timestamp = utcnow w, res_question = question_text,
                res_user_id = user_id, res_channel_id = channel_id,
                res_environment = environment, res_deadline = deadline,
                res_steps = [''classified'', ''searched_kb'', ''routed_to_team'',
                             ''generated_ticket_details''],
                res_classification = c, res_knowledge_base = kb,
                res_action = ''create_ticket'',
                res_answer = None, res_source = None,
                res_requires_ticket = True,
                res_routing = Some routing, res_assigned_team = Some (r_team routing),
                res_ticket_details =
                  Some (generate_ticket_details question_text c (r_team routing)
                          environment deadline),
                res_completed = True\<rparr>)))"

section \<open>Example collaborators\<close>

text \<open>The state before the first inquiry: an empty cache and an empty trace.\<close>

definition initial_state :: state where
  "initial_state = \<lparr>cache_store = Map.empty, trace = []\<rparr>"

text \<open>Total collaborator failure: every model call and the search backend raise, Redis is down.\<close>

definition outage_world :: world where
  "outage_world =
     \<lparr>classifier_chain = (\<lambda>q. Inl (ModelCallError ''timeout'')),
      knowledge_chain = (\<lambda>q r. Inl (ModelCallError ''timeout'')),
      router_chain = (\<lambda>q c. Inl (ModelCallError ''timeout'')),
      collection_query = (\<lambda>q k. Inl (SearchBackendError ''unavailable'')),
      redis_up = False,
      utcnow = ''2024-01-01T00:00:00''\<rparr>"

text \<open>A knowledge entry stored for the question \<open>How do I restart a pod?\<close>, at distance \<open>d\<close>.\<close>

definition pod_entry :: "real \<Rightarrow> raw_hit" where
  "pod_entry d =
     \<lparr>md_question = Some ''How do I restart a pod?'',
      md_answer = Some ''kubectl rollout restart'',
      md_team = Some ''platform'',
      md_tags = Some (Inr (JArray [JString ''k8s'', JString ''pod''])),
      md_entry_id = Some ''kb-1'',
      hit_distance = d\<rparr>"

text \<open>
  Working collaborators: the knowledge base holds the pod entry at distance \<open>0.1\<close> of its own
  question and nothing near any other question.
\<close>

definition seeded_world :: world where
  "seeded_world =
     \<lparr>classifier_chain =
        (\<lambda>q. Inr (''URGENCY: high'' @ newline @ ''CATEGORY: database'' @ newline @
                  ''NEEDS_TICKET: yes'')),
      knowledge_chain = (\<lambda>q r. Inr ''Restart it with kubectl.''),
      router_chain = (\<lambda>q c. Inr ''Network: this looks like a link problem.''),
      collection_query =
        (\<lambda>q k. if q = ''How do I restart a pod?'' then Inr [pod_entry 0.1] else Inr []),
      redis_up = True,
      utcnow = ''2024-01-01T00:00:00''\<rparr>"

text \<open>The candidate that \<open>search\<close> builds from the pod entry at distance \<open>d\<close>.\<close>

definition pod_match :: "real \<Rightarrow> kb_match" where
  "pod_match d =
     \<lparr>m_question = ''How do I restart a pod?'', m_answer = ''kubectl rollout restart'',
      m_team = ''platform'', m_tags = JArray [JString ''k8s'', JString ''pod''],
      m_entry_id = ''kb-1'', m_score = d, m_relevance = relevance_of d\<rparr>"

text \<open>
  Working collaborators whose knowledge base holds the pod entry with the stored tags text
  \<open>null\<close> (an entry added with \<open>tags\<close> set to \<open>None\<close>), at distance \<open>0.1\<close> of every
  question.
\<close>

definition null_tags_world :: world where
  "null_tags_world =
     seeded_world\<lparr>collection_query := (\<lambda>q k. Inr [(pod_entry 0.1)\<lparr>md_tags := Some (Inr JNull)\<rparr>])\<rparr>"


section \<open>Substrings and keyword scores\<close>

lemma starts_with_iff: "starts_with t k \<longleftrightarrow> (\<exists>post. t = k @ post)"
  by (induction t k rule: starts_with.induct) auto

lemma str_in_iff: "str_in k t \<longleftrightarrow> (\<exists>pre post. t = pre @ k @ post)"
proof (induction t)
  case Nil
  then show ?case by auto
next
  case (Cons c t)
  show ?case
  proof
    assume "str_in k (c # t)"
    then consider "starts_with (c # t) k" | "str_in k t" by auto
    then show "\<exists>pre post. c # t = pre @ k @ post"
    proof cases
      case 1
      then obtain post where "c # t = k @ post" using starts_with_iff by blast
      then have "c # t = [] @ k @ post" by simp
      then show ?thesis by blast
    next
      case 2
      then obtain pre post where "t = pre @ k @ post" using Cons.IH by blast
      then have "c # t = (c # pre) @ k @ post" by simp
      then show ?thesis by blast
    qed
  next
    assume "\<exists>pre post. c # t = pre @ k @ post"
    then obtain pre post where e: "c # t = pre @ k @ post" by blast
    show "str_in k (c # t)"
    proof (cases pre)
      case Nil
      with e have "starts_with (c # t) k" using starts_with_iff by auto
      then show ?thesis by simp
    next
      case (Cons a pre')
      with e have "t = pre' @ k @ post" by simp
      then have "str_in k t" using Cons.IH by blast
      then show ?thesis by simp
    qed
  qed
qed

lemma count_keywords_eq:
  "count_keywords text kws n = n + length (filter (\<lambda>k. str_in k text) kws)"
  by (induction kws arbitrary: n) auto

lemma max_value_ge: "v \<le> max_value v xs \<and> (\<forall>x \<in> set xs. x \<le> max_value v xs)"
proof (induction xs arbitrary: v)
  case Nil
  then show ?case by simp
next
  case (Cons x xs)
  have a: "(if v < x then x else v) \<le> max_value (if v < x then x else v) xs"
    and b: "\<forall>y \<in> set xs. y \<le> max_value (if v < x then x else v) xs"
    using Cons.IH by blast+
  from a have "v \<le> max_value v (x # xs)" "x \<le> max_value v (x # xs)"
    by (auto split: if_splits)
  with b show ?case by simp
qed

lemma max_value_mem: "max_value v xs \<in> set (v # xs)"
  by (induction xs arbitrary: v) (auto split: if_splits)

lemma max_by_score_split:
  "\<exists>before after. b # xs = before @ max_by_score b xs # after
     \<and> (\<forall>p \<in> set before. snd p < snd (max_by_score b xs))
     \<and> (\<forall>p \<in> set after. snd p \<le> snd (max_by_score b xs))"
proof (induction xs arbitrary: b)
  case Nil
  have "[b] = [] @ max_by_score b [] # []" by simp
  then show ?case by fastforce
next
  case (Cons x xs)
  define b' where "b' = (if snd b < snd x then x else b)"
  define r where "r = max_by_score b' xs"
  have r: "max_by_score b (x # xs) = r" by (simp add: r_def b'_def)
  have b'_cases: "(b' = x \<and> snd b < snd x) \<or> (b' = b \<and> \<not> snd b < snd x)"
    by (simp add: b'_def)
  obtain bf af where e: "b' # xs = bf @ r # af"
    and lt: "\<forall>p \<in> set bf. snd p < snd r" and le: "\<forall>p \<in> set af. snd p \<le> snd r"
    using Cons.IH [of b'] unfolding r_def by blast
  show ?case
  proof (cases bf)
    case Nil
    with e have br: "r = b'" and af: "af = xs" by simp_all
    from b'_cases show ?thesis
    proof
      assume h: "b' = x \<and> snd b < snd x"
      have "b # x # xs = [b] @ r # xs" using br h by simp
      moreover have "\<forall>p \<in> set [b]. snd p < snd r" using br h by simp
      moreover have "\<forall>p \<in> set xs. snd p \<le> snd r" using le af by simp
      ultimately show ?thesis unfolding r by blast
    next
      assume h: "b' = b \<and> \<not> snd b < snd x"
      have "b # x # xs = [] @ r # (x # xs)" using br h by simp
      moreover have "\<forall>p \<in> set (x # xs). snd p \<le> snd r" using le af br h by auto
      moreover have "\<forall>p \<in> set ([] :: (string \<times> nat) list). snd p < snd r" by simp
      ultimately show ?thesis unfolding r by blast
    qed
  next
    case (Cons a bf')
    with e have ab: "a = b'" and xs: "xs = bf' @ r # af" by simp_all
    have "snd b' < snd r" using lt Cons ab by simp
    then have "snd b < snd r" "snd x < snd r" using b'_cases by auto
    moreover have "\<forall>p \<in> set bf'. snd p < snd r" using lt Cons by simp
    ultimately have "\<forall>p \<in> set (b # x # bf'). snd p < snd r" by simp
    moreover have "b # x # xs = (b # x # bf') @ r # af" using xs by simp
    ultimately show ?thesis unfolding r using le by blast
  qed
qed

lemma team_scores_names:
  "map fst (team_scores text) = [''platform'', ''devops'', ''database'', ''security'', ''network'']"
  by (simp add: team_scores_def TEAMS_def)

lemma team_scores_counts:
  "team_scores text =
     map (\<lambda>(team, kws). (team, length (filter (\<lambda>k. \<exists>pre post. text = pre @ k @ post) kws))) TEAMS"
  by (simp add: team_scores_def count_keywords_eq str_in_iff)

lemma keyword_match_None_iff:
  "keyword_match text = None \<longleftrightarrow> (\<forall>p \<in> set (team_scores text). snd p = 0)"
proof (cases "team_scores text")
  case Nil
  then show ?thesis by (simp add: keyword_match_def)
next
  case (Cons first others)
  let ?m = "max_value (snd first) (map snd others)"
  have ge: "snd first \<le> ?m" "\<forall>x \<in> set (map snd others). x \<le> ?m"
    using max_value_ge [of "snd first" "map snd others"] by blast+
  have mem: "?m \<in> set (snd first # map snd others)" by (rule max_value_mem)
  have "?m = 0 \<longleftrightarrow> (\<forall>p \<in> set (first # others). snd p = 0)"
  proof
    assume z: "?m = 0"
    with ge show "\<forall>p \<in> set (first # others). snd p = 0" by auto
  next
    assume "\<forall>p \<in> set (first # others). snd p = 0"
    with mem show "?m = 0" by auto
  qed
  with Cons show ?thesis by (auto simp: keyword_match_def Let_def)
qed

lemma keyword_match_Some:
  assumes "keyword_match text = Some team"
  shows "\<exists>before n after. team_scores text = before @ (team, n) # after \<and> 0 < n
           \<and> (\<forall>p \<in> set before. snd p < n) \<and> (\<forall>p \<in> set after. snd p \<le> n)"
proof (cases "team_scores text")
  case Nil
  with assms show ?thesis by (simp add: keyword_match_def)
next
  case (Cons first others)
  let ?r = "max_by_score first others"
  from assms Cons have t: "team = fst ?r"
    by (auto simp: keyword_match_def Let_def split: if_splits)
  obtain before after where e: "first # others = before @ ?r # after"
    and lt: "\<forall>p \<in> set before. snd p < snd ?r" and le: "\<forall>p \<in> set after. snd p \<le> snd ?r"
    using max_by_score_split [of "first" "others"] by blast
  have "\<not> (\<forall>p \<in> set (team_scores text). snd p = 0)"
    using assms keyword_match_None_iff [of "text"] by simp
  then have "\<exists>p \<in> set (first # others). 0 < snd p" using Cons by simp
  then obtain p where p: "p \<in> set (first # others)" "0 < snd p" by blast
  have "snd p \<le> snd ?r" using p(1) e lt le by (auto simp: less_imp_le)
  with p have pos: "0 < snd ?r" by simp
  have "team_scores text = before @ (team, snd ?r) # after" using Cons e t by simp
  with pos lt le show ?thesis by blast
qed

lemma keyword_match_team_name:
  assumes "keyword_match text = Some team"
  shows "team \<in> set [''platform'', ''devops'', ''database'', ''security'', ''network'']"
proof -
  obtain before n after where "team_scores text = before @ (team, n) # after"
    using keyword_match_Some [OF assms] by blast
  then have "team \<in> set (map fst (team_scores text))" by simp
  then show ?thesis unfolding team_scores_names .
qed

lemma route_inquiry_keyword:
  assumes "keyword_match (lower q) = Some team"
  shows "route_inquiry w q category s =
           (Inr \<lparr>r_team = team, r_method = ''keyword'', r_confidence = ''high'',
                 r_reason = ''Matched keywords for '' @ team @ '' team''\<rparr>, s)"
proof -
  have "team \<noteq> []" using keyword_match_team_name [OF assms] by auto
  with assms show ?thesis by (simp add: route_inquiry_def Let_def get_default_def ret_def)
qed

lemma lower_question_eval: "lower ''My POD needs SSL'' = ''my pod needs ssl''"
  by (simp add: lower_def lower_char_def)

section \<open>Cache, search and the knowledge agent\<close>

lemmas prog_defs = ret_def then_do_def try_except_def emit_def from_result_def

lemma cache_get_eq:
  "cache_get w key s =
     (Inr (if redis_up w then map_option fst (cache_store s key) else None),
      s\<lparr>trace := trace s @ [CacheGet key]\<rparr>)"
  by (simp add: cache_get_def client_get_def prog_defs split: option.splits)

lemma cache_set_eq:
  "cache_set w key v ttl s =
     (Inr (redis_up w),
      s\<lparr>trace := trace s @ [CacheSet key v ttl],
        cache_store := (if redis_up w then (cache_store s)(key \<mapsto> (v, ttl)) else cache_store s)\<rparr>)"
  by (simp add: cache_set_def client_setex_def prog_defs)

lemma search_eq:
  "search w query k s =
     (Inr (case collection_query w query k of
             Inl e \<Rightarrow> []
           | Inr hits \<Rightarrow> (case format_hits hits of Inl e \<Rightarrow> [] | Inr ms \<Rightarrow> ms)),
      s\<lparr>trace := trace s @ [BackendQuery query k]\<rparr>)"
  by (simp add: search_def prog_defs split: sum.splits)

lemma format_hit_relevance:
  "format_hit h = Inr m \<Longrightarrow> m_relevance m = relevance_of (m_score m)"
  by (auto simp: format_hit_def split: sum.splits)

lemma format_hits_relevance:
  "format_hits hs = Inr ms \<Longrightarrow> \<forall>m \<in> set ms. m_relevance m = relevance_of (m_score m)"
proof (induction hs arbitrary: ms)
  case Nil
  then show ?case by simp
next
  case (Cons h hs)
  then show ?case
    by (auto split: sum.splits dest: format_hit_relevance)
qed

lemma search_relevance:
  assumes "search w query k s = (Inr ms, s')"
  shows "\<forall>m \<in> set ms. m_relevance m = relevance_of (m_score m)"
proof -
  from assms have ms: "ms = (case collection_query w query k of
             Inl e \<Rightarrow> []
           | Inr hits \<Rightarrow> (case format_hits hits of Inl e \<Rightarrow> [] | Inr ms \<Rightarrow> ms))"
    by (simp add: search_eq)
  show ?thesis
  proof (cases "collection_query w query k")
    case (Inl e)
    with ms show ?thesis by simp
  next
    case (Inr hits)
    show ?thesis
    proof (cases "format_hits hits")
      case (Inl e)
      with ms Inr show ?thesis by simp
    next
      case (Inr found)
      with ms \<open>collection_query w query k = Inr hits\<close> have "ms = found" by simp
      with Inr format_hits_relevance show ?thesis by blast
    qed
  qed
qed

lemma candidate_tiers:
  "\<forall>m \<in> set ms. m_relevance m = relevance_of (m_score m)
   \<Longrightarrow> map (relevance_of \<circ> m_score) ms = map m_relevance ms"
  by (induction ms) auto

lemma relevance_of_iff:
  "(relevance_of d = ''high'' \<longleftrightarrow> d < 0.3)
   \<and> (relevance_of d = ''medium'' \<longleftrightarrow> 0.3 \<le> d \<and> d < 0.6)
   \<and> (relevance_of d = ''low'' \<longleftrightarrow> 0.6 \<le> d)"
  by (auto simp: relevance_of_def)

lemma search_knowledge_base_hit:
  assumes "redis_up w" "cache_store s (''kb_search:'' @ q) = Some (v, ttl)" "v \<noteq> []"
  shows "search_knowledge_base w q k s =
           (Inr v, s\<lparr>trace := trace s @ [CacheGet (''kb_search:'' @ q)]\<rparr>)"
proof -
  obtain r rs where v: "v = r # rs" using assms(3) by (cases v) auto
  show ?thesis
    using assms(1,2) unfolding v
    by (simp add: search_knowledge_base_def Let_def then_do_def cache_get_eq ret_def)
qed

lemma search_knowledge_base_miss:
  assumes "\<not> redis_up w \<or> cache_store s (''kb_search:'' @ q) = None
           \<or> (\<exists>ttl. cache_store s (''kb_search:'' @ q) = Some ([], ttl))"
  shows "\<exists>results.
           search w q k (s\<lparr>trace := trace s @ [CacheGet (''kb_search:'' @ q)]\<rparr>) =
             (Inr results,
              s\<lparr>trace := trace s @ [CacheGet (''kb_search:'' @ q), BackendQuery q k]\<rparr>)
           \<and> search_knowledge_base w q k s =
               (Inr results,
                if results = []
                then s\<lparr>trace := trace s @ [CacheGet (''kb_search:'' @ q), BackendQuery q k]\<rparr>
                else s\<lparr>trace := trace s @ [CacheGet (''kb_search:'' @ q), BackendQuery q k,
                                           CacheSet (''kb_search:'' @ q) results 3600],
                       cache_store :=
                         (if redis_up w
                          then (cache_store s)(''kb_search:'' @ q \<mapsto> (results, 3600))
                          else cache_store s)\<rparr>)"
proof -
  have miss: "(if redis_up w then map_option fst (cache_store s (''kb_search:'' @ q)) else None)
                \<in> {None, Some []}"
    using assms by auto
  show ?thesis
    using miss
    by (auto simp: search_knowledge_base_def Let_def then_do_def cache_get_eq cache_set_eq
        search_eq ret_def split: option.splits list.splits)
qed

lemma search_knowledge_base_total:
  "\<exists>results s'. search_knowledge_base w q k s = (Inr results, s')"
  by (auto simp: search_knowledge_base_def Let_def then_do_def cache_get_eq cache_set_eq
      search_eq ret_def split: option.splits list.splits)

lemma search_knowledge_base_store:
  assumes "search_knowledge_base w q k s = (Inr results, s')"
  shows "cache_store s' = cache_store s
         \<or> (results \<noteq> [] \<and> cache_store s' = (cache_store s)(''kb_search:'' @ q \<mapsto> (results, 3600)))"
  using assms
  by (auto simp: search_knowledge_base_def Let_def then_do_def cache_get_eq cache_set_eq
      search_eq ret_def split: option.splits list.splits if_splits)

lemma search_knowledge_base_invariant:
  assumes inv: "\<forall>key v ttl. cache_store s key = Some (v, ttl) \<longrightarrow> v \<noteq> []"
  shows "\<forall>key v ttl. cache_store (snd (search_knowledge_base w q k s)) key = Some (v, ttl) \<longrightarrow> v \<noteq> []"
proof -
  obtain results s' where r: "search_knowledge_base w q k s = (Inr results, s')"
    using search_knowledge_base_total by blast
  have "\<forall>key v ttl. cache_store s' key = Some (v, ttl) \<longrightarrow> v \<noteq> []"
  proof (intro allI impI)
    fix key v ttl
    assume h: "cache_store s' key = Some (v, ttl)"
    from search_knowledge_base_store [OF r] show "v \<noteq> []"
    proof
      assume "cache_store s' = cache_store s"
      with h inv show ?thesis by metis
    next
      assume u: "results \<noteq> [] \<and>
        cache_store s' = (cache_store s)(''kb_search:'' @ q \<mapsto> (results, 3600))"
      show ?thesis
      proof (cases "key = ''kb_search:'' @ q")
        case True
        with h u show ?thesis by auto
      next
        case False
        with h u have "cache_store s key = Some (v, ttl)" by simp
        with inv show ?thesis by metis
      qed
    qed
  qed
  then show ?thesis unfolding r by simp
qed

text \<open>No synthesis call is made by the search.\<close>

lemma search_knowledge_base_trace:
  assumes "search_knowledge_base w q k s = (Inr results, s')"
  shows "\<exists>evs. trace s' = trace s @ evs \<and> (\<forall>a b. SynthesisCall a b \<notin> set evs)"
  using assms
  by (auto simp: search_knowledge_base_def Let_def then_do_def cache_get_eq cache_set_eq
      search_eq ret_def split: option.splits list.splits if_splits)

lemma answer_question_empty:
  assumes "search_knowledge_base w q 3 s = (Inr [], s1)"
  shows "answer_question w q s =
           (Inr \<lparr>kb_found = False, kb_answer = None, kb_source = None,
                 kb_confidence = ''none'', kb_search_attempted = None,
                 kb_all_results = None, kb_error = None\<rparr>, s1)"
  using assms by (simp add: answer_question_def then_do_def ret_def)

lemma answer_question_gated:
  assumes "search_knowledge_base w q 3 s = (Inr cands, s1)" "cands \<noteq> []"
    "filter strict_gate cands = []"
  shows "answer_question w q s =
           (Inr \<lparr>kb_found = False, kb_answer = None, kb_source = None,
                 kb_confidence = ''low'', kb_search_attempted = Some True,
                 kb_all_results = None, kb_error = None\<rparr>, s1)"
  using assms by (simp add: answer_question_def then_do_def ret_def)

lemma format_results_Nil: "format_results [] = Inr []"
  by (simp add: format_results_def)

lemma answer_question_synth:
  assumes "search_knowledge_base w q 3 s = (Inr cands, s1)"
    "filter strict_gate cands = best # rest"
    "format_results (best # rest) = Inr formatted"
  shows "answer_question w q s =
           ((case knowledge_chain w q formatted of
               Inr answer \<Rightarrow>
                 Inr \<lparr>kb_found = True, kb_answer = Some answer, kb_source = Some best,
                      kb_confidence = m_relevance best, kb_search_attempted = None,
                      kb_all_results = Some (best # rest), kb_error = None\<rparr>
             | Inl e \<Rightarrow>
                 Inr \<lparr>kb_found = False, kb_answer = None, kb_source = None,
                      kb_confidence = ''error'', kb_search_attempted = None,
                      kb_all_results = None, kb_error = Some (str_of_error e)\<rparr>),
            s1\<lparr>trace := trace s1 @ [SynthesisCall q formatted]\<rparr>)"
proof -
  have ne: "cands \<noteq> []" using assms(2) by auto
  show ?thesis
    using assms ne
    by (simp add: answer_question_def invoke_knowledge_chain_def prog_defs split: sum.splits)
qed

text \<open>An exception of the formatting leaves \<open>answer_question\<close>, before any synthesis call.\<close>

lemma answer_question_raises:
  assumes "search_knowledge_base w q 3 s = (Inr cands, s1)"
    "filter strict_gate cands = best # rest"
    "format_results (best # rest) = Inl e"
  shows "answer_question w q s = (Inl e, s1)"
proof -
  have ne: "cands \<noteq> []" using assms(2) by auto
  show ?thesis
    using assms ne
    by (simp add: answer_question_def prog_defs)
qed

lemma answer_question_returns:
  assumes "search_knowledge_base w q 3 s = (Inr cands, s1)"
    "format_results (filter strict_gate cands) = Inr formatted"
  shows "\<exists>kb s'. answer_question w q s = (Inr kb, s')"
proof (cases "filter strict_gate cands")
  case Nil
  then show ?thesis
    using assms(1) answer_question_empty answer_question_gated by (cases "cands = []") blast+
next
  case (Cons best rest)
  from assms(2) have f: "format_results (best # rest) = Inr formatted" unfolding Cons .
  show ?thesis
    unfolding answer_question_synth [OF assms(1) Cons f] by (simp split: sum.splits)
qed

lemma answer_question_found_high:
  assumes "answer_question w q s = (Inr kb, s')" "kb_found kb"
  shows "kb_confidence kb = ''high'' \<and> (\<exists>a m. kb_answer kb = Some a \<and> kb_source kb = Some m \<and> strict_gate m)"
proof -
  obtain cands s1 where c: "search_knowledge_base w q 3 s = (Inr cands, s1)"
    using search_knowledge_base_total by blast
  show ?thesis
  proof (cases "filter strict_gate cands")
    case Nil
    then show ?thesis
      using c assms answer_question_empty [of w q s] answer_question_gated [of w q s]
      by (cases "cands = []") auto
  next
    case (Cons best rest)
    have "best \<in> set (filter strict_gate cands)" unfolding Cons by simp
    then have g: "strict_gate best" by simp
    then have h: "m_relevance best = ''high''" by (simp add: strict_gate_def)
    show ?thesis
    proof (cases "format_results (best # rest)")
      case (Inl e)
      from assms(1) show ?thesis
        unfolding answer_question_raises [OF c Cons Inl] by simp
    next
      case (Inr formatted)
      from assms g h show ?thesis
        unfolding answer_question_synth [OF c Cons Inr] by (auto split: sum.splits)
    qed
  qed
qed

section \<open>Keyword routing\<close>

text \<open>
  C4, as the code has it. Keyword routing scores the teams in the fixed order platform,
  devops, database, security, network; the score of a team is the number of its keywords
  that occur in the text as contiguous substrings, each keyword counting once however often
  it occurs. No decision is made exactly when every score is 0.
  Otherwise the chosen team has a positive score that is strictly greater than the score of
  every team before it and at least the score of every team after it: the strictly highest
  score wins and equal top scores go to the first team in the order. \<open>route_inquiry\<close> scores
  the lower-cased question and returns the chosen team with method \<open>keyword\<close> and
  confidence \<open>high\<close>, without touching the state.
\<close>

theorem keyword_routing:
  "map fst (team_scores text) = [''platform'', ''devops'', ''database'', ''security'', ''network'']
   \<and> team_scores text =
       map (\<lambda>(team, kws).
              (team, length (filter (\<lambda>k. \<exists>pre post. text = pre @ k @ post) kws))) TEAMS
   \<and> (keyword_match text = None \<longleftrightarrow> (\<forall>p \<in> set (team_scores text). snd p = 0))
   \<and> (\<forall>team. keyword_match text = Some team \<longrightarrow>
         (\<exists>before n after. team_scores text = before @ (team, n) # after \<and> 0 < n
            \<and> (\<forall>p \<in> set before. snd p < n) \<and> (\<forall>p \<in> set after. snd p \<le> n)))
   \<and> (\<forall>team. text = lower q \<and> keyword_match text = Some team \<longrightarrow>
         route_inquiry w q category s =
           (Inr \<lparr>r_team = team, r_method = ''keyword'', r_confidence = ''high'',
                 r_reason = ''Matched keywords for '' @ team @ '' team''\<rparr>, s))"
  using team_scores_names team_scores_counts keyword_match_None_iff keyword_match_Some
    route_inquiry_keyword by blast

theorem keyword_routing_witness:
  "keyword_match (lower ''My POD needs SSL'') = Some ''platform''
   \<and> (\<exists>before n after.
         team_scores (lower ''My POD needs SSL'') = before @ (''platform'', n) # after \<and> 0 < n
         \<and> (\<forall>p \<in> set before. snd p < n) \<and> (\<forall>p \<in> set after. snd p \<le> n))
   \<and> route_inquiry outage_world ''My POD needs SSL'' ''other'' initial_state =
       (Inr \<lparr>r_team = ''platform'', r_method = ''keyword'', r_confidence = ''high'',
             r_reason = ''Matched keywords for platform team''\<rparr>, initial_state)"
proof -
  have s: "team_scores ''my pod needs ssl'' =
             [(''platform'', 1), (''devops'', 0), (''database'', 0), (''security'', 1),
              (''network'', 0)]"
    by (simp add: team_scores_def TEAMS_def)
  have m: "keyword_match (lower ''My POD needs SSL'') = Some ''platform''"
    by (simp add: keyword_match_def s lower_question_eval)
  note k = keyword_routing [of "lower ''My POD needs SSL''" "''My POD needs SSL''"
      outage_world "''other''" initial_state]
  from k m have a: "\<exists>before n after.
         team_scores (lower ''My POD needs SSL'') = before @ (''platform'', n) # after \<and> 0 < n
         \<and> (\<forall>p \<in> set before. snd p < n) \<and> (\<forall>p \<in> set after. snd p \<le> n)"
    by (elim conjE allE [of _ "''platform''"]) simp
  from k m have b: "route_inquiry outage_world ''My POD needs SSL'' ''other'' initial_state =
       (Inr \<lparr>r_team = ''platform'', r_method = ''keyword'', r_confidence = ''high'',
             r_reason = ''Matched keywords for '' @ ''platform'' @ '' team''\<rparr>, initial_state)"
    by (elim conjE allE [of _ "''platform''"]) simp
  from m a b show ?thesis by simp
qed

text \<open>
  The claim C4 as written counts occurrences. In \<open>pod pod pod sql db\<close> the platform
  keywords occur three times and the database keywords twice, so platform has the strictly
  highest count of occurrences; the code scores platform 1 and database 2 and routes to
  database.
\<close>

theorem keyword_occurrences_counterexample:
  "spec_team_scores (lower ''pod pod pod sql db'') =
     [(''platform'', 3), (''devops'', 0), (''database'', 2), (''security'', 0), (''network'', 0)]
   \<and> team_scores (lower ''pod pod pod sql db'') =
     [(''platform'', 1), (''devops'', 0), (''database'', 2), (''security'', 0), (''network'', 0)]
   \<and> keyword_match (lower ''pod pod pod sql db'') = Some ''database''
   \<and> keyword_match (lower ''pod pod pod sql db'') \<noteq> Some ''platform''"
proof -
  have l: "lower ''pod pod pod sql db'' = ''pod pod pod sql db''"
    by (simp add: lower_def lower_char_def)
  have a: "spec_team_scores ''pod pod pod sql db'' =
     [(''platform'', 3), (''devops'', 0), (''database'', 2), (''security'', 0), (''network'', 0)]"
    by (simp add: spec_team_scores_def spec_keyword_score_def TEAMS_def)
  have b: "team_scores ''pod pod pod sql db'' =
     [(''platform'', 1), (''devops'', 0), (''database'', 2), (''security'', 0), (''network'', 0)]"
    by (simp add: team_scores_def TEAMS_def)
  have c: "keyword_match ''pod pod pod sql db'' = Some ''database''"
    by (simp add: keyword_match_def b)
  from a b c show ?thesis unfolding l by simp
qed

section \<open>Relevance tiers\<close>

text \<open>
  C6. The tier of a distance \<open>d\<close> is \<open>high\<close> iff \<open>d < 0.3\<close>, \<open>medium\<close> iff
  \<open>0.3 \<le> d < 0.6\<close> and \<open>low\<close> iff \<open>0.6 \<le> d\<close>, and every candidate that \<open>search\<close>
  returns carries the tier of its own distance score.
\<close>

theorem relevance_tiers:
  "(relevance_of d = ''high'' \<longleftrightarrow> d < 0.3)
   \<and> (relevance_of d = ''medium'' \<longleftrightarrow> 0.3 \<le> d \<and> d < 0.6)
   \<and> (relevance_of d = ''low'' \<longleftrightarrow> 0.6 \<le> d)
   \<and> (\<forall>ms s'. search w query k s = (Inr ms, s') \<longrightarrow>
         (\<forall>m \<in> set ms. m_relevance m = relevance_of (m_score m)))"
  using relevance_of_iff [of d] search_relevance by blast

theorem relevance_tiers_witness:
  "search (seeded_world\<lparr>collection_query :=
             (\<lambda>q k. Inr [pod_entry 0.299, pod_entry 0.3, pod_entry 0.599, pod_entry 0.6])\<rparr>)
     ''restart'' 3 initial_state =
     (Inr (map (\<lambda>(d, tier).
                 \<lparr>m_question = ''How do I restart a pod?'', m_answer = ''kubectl rollout restart'',
                  m_team = ''platform'', m_tags = JArray [JString ''k8s'', JString ''pod''],
                  m_entry_id = ''kb-1'',
                  m_score = d, m_relevance = tier\<rparr>)
             [(0.299, ''high''), (0.3, ''medium''), (0.599, ''medium''), (0.6, ''low'')]),
      initial_state\<lparr>trace := [BackendQuery ''restart'' 3]\<rparr>)
   \<and> map (relevance_of \<circ> m_score)
         (map (\<lambda>(d, tier).
                 \<lparr>m_question = ''How do I restart a pod?'', m_answer = ''kubectl rollout restart'',
                  m_team = ''platform'', m_tags = JArray [JString ''k8s'', JString ''pod''],
                  m_entry_id = ''kb-1'',
                  m_score = d, m_relevance = tier\<rparr>)
             [(0.299, ''high''), (0.3, ''medium''), (0.599, ''medium''), (0.6, ''low'')]) =
       [''high'', ''medium'', ''medium'', ''low'']"
proof -
  let ?w = "seeded_world\<lparr>collection_query :=
             (\<lambda>q k. Inr [pod_entry 0.299, pod_entry 0.3, pod_entry 0.599, pod_entry 0.6])\<rparr>"
  let ?ms = "map (\<lambda>(d, tier).
                 \<lparr>m_question = ''How do I restart a pod?'', m_answer = ''kubectl rollout restart'',
                  m_team = ''platform'', m_tags = JArray [JString ''k8s'', JString ''pod''],
                  m_entry_id = ''kb-1'',
                  m_score = d, m_relevance = tier\<rparr>)
             [(0.299, ''high''), (0.3, ''medium''), (0.599, ''medium''), (0.6, ''low'')]"
  have e: "search ?w ''restart'' 3 initial_state =
             (Inr ?ms, initial_state\<lparr>trace := [BackendQuery ''restart'' 3]\<rparr>)"
    by (simp add: search_def then_do_def try_except_def emit_def from_result_def ret_def
        seeded_world_def initial_state_def format_hit_def get_default_def pod_entry_def
        relevance_of_def)
  from e relevance_tiers [of "0.3" "?w" "''restart''" 3 initial_state]
  have "\<forall>m \<in> set ?ms. m_relevance m = relevance_of (m_score m)"
    by blast
  then have "map (relevance_of \<circ> m_score) ?ms = map m_relevance ?ms"
    by (rule candidate_tiers)
  then have "map (relevance_of \<circ> m_score) ?ms = [''high'', ''medium'', ''medium'', ''low'']"
    by simp
  with e show ?thesis by blast
qed

section \<open>Caching of the knowledge search\<close>

text \<open>
  C7. \<open>search_knowledge_base\<close> first reads the cache under the key \<open>kb_search:\<close> followed by
  the exact question. When Redis answers with a stored non-empty candidate list, that list
  is returned unchanged and the only call made is the cache read: the backend is not
  queried and nothing is written. Otherwise (Redis down, no entry, or an empty stored list)
  the backend is queried after the cache read, its candidates are returned, and they are
  written to the cache with a TTL of 3600 seconds exactly when they are non-empty. The
  function never stores an empty list, so a stored entry is always a hit.
\<close>

theorem kb_search_caching:
  "(\<forall>v ttl. redis_up w \<and> cache_store s (''kb_search:'' @ q) = Some (v, ttl) \<and> v \<noteq> [] \<longrightarrow>
      search_knowledge_base w q k s =
        (Inr v, s\<lparr>trace := trace s @ [CacheGet (''kb_search:'' @ q)]\<rparr>))
   \<and> (\<not> redis_up w \<or> cache_store s (''kb_search:'' @ q) = None
        \<or> (\<exists>ttl. cache_store s (''kb_search:'' @ q) = Some ([], ttl)) \<longrightarrow>
      (\<exists>results.
         search w q k (s\<lparr>trace := trace s @ [CacheGet (''kb_search:'' @ q)]\<rparr>) =
           (Inr results,
            s\<lparr>trace := trace s @ [CacheGet (''kb_search:'' @ q), BackendQuery q k]\<rparr>)
         \<and> search_knowledge_base w q k s =
             (Inr results,
              if results = []
              then s\<lparr>trace := trace s @ [CacheGet (''kb_search:'' @ q), BackendQuery q k]\<rparr>
              else s\<lparr>trace := trace s @ [CacheGet (''kb_search:'' @ q), BackendQuery q k,
                                         CacheSet (''kb_search:'' @ q) results 3600],
                     cache_store :=
                       (if redis_up w
                        then (cache_store s)(''kb_search:'' @ q \<mapsto> (results, 3600))
                        else cache_store s)\<rparr>)))
   \<and> ((\<forall>key v ttl. cache_store s key = Some (v, ttl) \<longrightarrow> v \<noteq> []) \<longrightarrow>
        (\<forall>key v ttl. cache_store (snd (search_knowledge_base w q k s)) key = Some (v, ttl)
           \<longrightarrow> v \<noteq> []))"
proof (intro conjI allI impI)
  fix v ttl
  assume "redis_up w \<and> cache_store s (''kb_search:'' @ q) = Some (v, ttl) \<and> v \<noteq> []"
  then show "search_knowledge_base w q k s =
        (Inr v, s\<lparr>trace := trace s @ [CacheGet (''kb_search:'' @ q)]\<rparr>)"
    using search_knowledge_base_hit by blast
next
  assume "\<not> redis_up w \<or> cache_store s (''kb_search:'' @ q) = None
        \<or> (\<exists>ttl. cache_store s (''kb_search:'' @ q) = Some ([], ttl))"
  then show "\<exists>results.
         search w q k (s\<lparr>trace := trace s @ [CacheGet (''kb_search:'' @ q)]\<rparr>) =
           (Inr results,
            s\<lparr>trace := trace s @ [CacheGet (''kb_search:'' @ q), BackendQuery q k]\<rparr>)
         \<and> search_knowledge_base w q k s =
             (Inr results,
              if results = []
              then s\<lparr>trace := trace s @ [CacheGet (''kb_search:'' @ q), BackendQuery q k]\<rparr>
              else s\<lparr>trace := trace s @ [CacheGet (''kb_search:'' @ q), BackendQuery q k,
                                         CacheSet (''kb_search:'' @ q) results 3600],
                     cache_store :=
                       (if redis_up w
                        then (cache_store s)(''kb_search:'' @ q \<mapsto> (results, 3600))
                        else cache_store s)\<rparr>)"
    by (rule search_knowledge_base_miss)
next
  fix key v ttl
  assume "\<forall>key v ttl. cache_store s key = Some (v, ttl) \<longrightarrow> v \<noteq> []"
    and "cache_store (snd (search_knowledge_base w q k s)) key = Some (v, ttl)"
  then show "v \<noteq> []"
    using search_knowledge_base_invariant [of s w q k] by blast
qed

lemma format_pod_entry: "format_hit (pod_entry d) = Inr (pod_match d)"
  by (simp add: format_hit_def pod_entry_def pod_match_def get_default_def)

lemma seeded_search_pod:
  "search seeded_world ''How do I restart a pod?'' k s =
     (Inr [pod_match 0.1], s\<lparr>trace := trace s @ [BackendQuery ''How do I restart a pod?'' k]\<rparr>)"
  by (simp add: search_eq seeded_world_def format_pod_entry)

theorem kb_search_caching_witness:
  "search_knowledge_base seeded_world ''How do I restart a pod?'' 3 initial_state =
     (Inr [pod_match 0.1],
      \<lparr>cache_store = [''kb_search:How do I restart a pod?'' \<mapsto> ([pod_match 0.1], 3600)],
       trace = [CacheGet ''kb_search:How do I restart a pod?'',
                BackendQuery ''How do I restart a pod?'' 3,
                CacheSet ''kb_search:How do I restart a pod?'' [pod_match 0.1] 3600]\<rparr>)
   \<and> search_knowledge_base seeded_world ''How do I restart a pod?'' 3
        \<lparr>cache_store = [''kb_search:How do I restart a pod?'' \<mapsto> ([pod_match 0.1], 3600)],
         trace = []\<rparr> =
     (Inr [pod_match 0.1],
      \<lparr>cache_store = [''kb_search:How do I restart a pod?'' \<mapsto> ([pod_match 0.1], 3600)],
       trace = [CacheGet ''kb_search:How do I restart a pod?'']\<rparr>)"
proof -
  let ?q = "''How do I restart a pod?''"
  let ?s = "\<lparr>cache_store = [''kb_search:How do I restart a pod?'' \<mapsto> ([pod_match 0.1], 3600)],
         trace = []\<rparr>"
  have up: "redis_up seeded_world" by (simp add: seeded_world_def)
  have miss: "cache_store initial_state (''kb_search:'' @ ?q) = None"
    by (simp add: initial_state_def)
  have hit: "cache_store ?s (''kb_search:'' @ ?q) = Some ([pod_match 0.1], 3600)
             \<and> [pod_match 0.1] \<noteq> []"
    by simp
  note first = kb_search_caching [of seeded_world initial_state ?q 3]
  note second = kb_search_caching [of seeded_world ?s ?q 3]
  from first miss obtain results where
    r: "search seeded_world ?q 3
          (initial_state\<lparr>trace := trace initial_state @ [CacheGet (''kb_search:'' @ ?q)]\<rparr>) =
        (Inr results,
         initial_state\<lparr>trace := trace initial_state @
            [CacheGet (''kb_search:'' @ ?q), BackendQuery ?q 3]\<rparr>)"
    and f: "search_knowledge_base seeded_world ?q 3 initial_state =
             (Inr results,
              if results = []
              then initial_state\<lparr>trace := trace initial_state @
                     [CacheGet (''kb_search:'' @ ?q), BackendQuery ?q 3]\<rparr>
              else initial_state\<lparr>trace := trace initial_state @
                     [CacheGet (''kb_search:'' @ ?q), BackendQuery ?q 3,
                      CacheSet (''kb_search:'' @ ?q) results 3600],
                     cache_store :=
                       (if redis_up seeded_world
                        then (cache_store initial_state)(''kb_search:'' @ ?q \<mapsto> (results, 3600))
                        else cache_store initial_state)\<rparr>)"
    by blast
  from r have "results = [pod_match 0.1]" by (simp add: seeded_search_pod)
  with f up have a: "search_knowledge_base seeded_world ?q 3 initial_state =
     (Inr [pod_match 0.1],
      \<lparr>cache_store = [''kb_search:How do I restart a pod?'' \<mapsto> ([pod_match 0.1], 3600)],
       trace = [CacheGet ''kb_search:How do I restart a pod?'',
                BackendQuery ''How do I restart a pod?'' 3,
                CacheSet ''kb_search:How do I restart a pod?'' [pod_match 0.1] 3600]\<rparr>)"
    by (simp add: initial_state_def)
  from second up hit have "search_knowledge_base seeded_world ?q 3 ?s =
        (Inr [pod_match 0.1], ?s\<lparr>trace := trace ?s @ [CacheGet (''kb_search:'' @ ?q)]\<rparr>)"
    by blast
  then have b: "search_knowledge_base seeded_world ?q 3 ?s =
     (Inr [pod_match 0.1],
      \<lparr>cache_store = [''kb_search:How do I restart a pod?'' \<mapsto> ([pod_match 0.1], 3600)],
       trace = [CacheGet ''kb_search:How do I restart a pod?'']\<rparr>)"
    by simp
  from a b show ?thesis by blast
qed

lemma strict_gate_examples:
  "strict_gate (r\<lparr>m_relevance := ''high'', m_score := 0.35\<rparr>)
   \<and> \<not> strict_gate (r\<lparr>m_relevance := ''high'', m_score := 0.45\<rparr>)"
  by (simp add: strict_gate_def)

lemma answer_question_not_found:
  assumes "search_knowledge_base w q 3 s = (Inr cands, s1)" "filter strict_gate cands = []"
  shows "answer_question w q s =
           (Inr \<lparr>kb_found = False, kb_answer = None, kb_source = None,
                 kb_confidence = (if cands = [] then ''none'' else ''low''),
                 kb_search_attempted = (if cands = [] then None else Some True),
                 kb_all_results = None, kb_error = None\<rparr>, s1)"
proof (cases "cands = []")
  case True
  with assms(1) answer_question_empty [of w q s s1] show ?thesis by simp
next
  case False
  with assms answer_question_gated [of w q s cands s1] show ?thesis by simp
qed

lemma answer_question_state:
  assumes "search_knowledge_base w q 3 s = (Inr cands, s1)"
    "filter strict_gate cands = best # rest"
  shows "case format_results (best # rest) of
           Inr formatted \<Rightarrow>
             snd (answer_question w q s) =
               s1\<lparr>trace := trace s1 @ [SynthesisCall q formatted]\<rparr>
         | Inl e \<Rightarrow> answer_question w q s = (Inl e, s1)"
proof (cases "format_results (best # rest)")
  case (Inl e)
  then show ?thesis using answer_question_raises [OF assms Inl] by simp
next
  case (Inr formatted)
  then show ?thesis using answer_question_synth [OF assms Inr] by simp
qed

section \<open>The strict gate of the knowledge agent\<close>

text \<open>
  C3. The gate of \<open>answer_question\<close> keeps a candidate iff its tier is \<open>high\<close> and its
  distance is below \<open>0.4\<close>: tier \<open>high\<close> at distance \<open>0.35\<close> passes, at \<open>0.45\<close> it does
  not. When no candidate survives, the answer is \<open>found = False\<close> with confidence \<open>none\<close>
  for an empty candidate set and \<open>low\<close> otherwise, and the state is the one the search left:
  no synthesis call is made. When candidates survive, the synthesis is called with the
  formatted survivors, unless formatting them raises: then \<open>answer_question\<close> raises in the
  state the search left.
\<close>

theorem strict_gate_answer:
  "(strict_gate r \<longleftrightarrow> m_relevance r = ''high'' \<and> m_score r < 0.4)
   \<and> strict_gate (r\<lparr>m_relevance := ''high'', m_score := 0.35\<rparr>)
   \<and> \<not> strict_gate (r\<lparr>m_relevance := ''high'', m_score := 0.45\<rparr>)
   \<and> (\<forall>cands s1.
         search_knowledge_base w q 3 s = (Inr cands, s1) \<and> filter strict_gate cands = [] \<longrightarrow>
           answer_question w q s =
             (Inr \<lparr>kb_found = False, kb_answer = None, kb_source = None,
                   kb_confidence = (if cands = [] then ''none'' else ''low''),
                   kb_search_attempted = (if cands = [] then None else Some True),
                   kb_all_results = None, kb_error = None\<rparr>, s1)
           \<and> (\<exists>evs. trace s1 = trace s @ evs \<and> (\<forall>a b. SynthesisCall a b \<notin> set evs)))
   \<and> (\<forall>cands s1 best rest.
         search_knowledge_base w q 3 s = (Inr cands, s1)
         \<and> filter strict_gate cands = best # rest \<longrightarrow>
           (case format_results (best # rest) of
              Inr formatted \<Rightarrow>
                snd (answer_question w q s) =
                  s1\<lparr>trace := trace s1 @ [SynthesisCall q formatted]\<rparr>
            | Inl e \<Rightarrow> answer_question w q s = (Inl e, s1)))"
proof (intro conjI allI impI)
  show "strict_gate r \<longleftrightarrow> m_relevance r = ''high'' \<and> m_score r < 0.4"
    by (simp add: strict_gate_def)
  show "strict_gate (r\<lparr>m_relevance := ''high'', m_score := 0.35\<rparr>)"
    using strict_gate_examples by blast
  show "\<not> strict_gate (r\<lparr>m_relevance := ''high'', m_score := 0.45\<rparr>)"
    using strict_gate_examples by blast
next
  fix cands s1
  assume h: "search_knowledge_base w q 3 s = (Inr cands, s1) \<and> filter strict_gate cands = []"
  then show "answer_question w q s =
             (Inr \<lparr>kb_found = False, kb_answer = None, kb_source = None,
                   kb_confidence = (if cands = [] then ''none'' else ''low''),
                   kb_search_attempted = (if cands = [] then None else Some True),
                   kb_all_results = None, kb_error = None\<rparr>, s1)"
    using answer_question_not_found by blast
  from h show "\<exists>evs. trace s1 = trace s @ evs \<and> (\<forall>a b. SynthesisCall a b \<notin> set evs)"
    using search_knowledge_base_trace by blast
next
  fix cands s1 best rest
  assume "search_knowledge_base w q 3 s = (Inr cands, s1)
         \<and> filter strict_gate cands = best # rest"
  then show "case format_results (best # rest) of
              Inr formatted \<Rightarrow>
                snd (answer_question w q s) =
                  s1\<lparr>trace := trace s1 @ [SynthesisCall q formatted]\<rparr>
            | Inl e \<Rightarrow> answer_question w q s = (Inl e, s1)"
    using answer_question_state by blast
qed

lemma seeded_search_other:
  "q \<noteq> ''How do I restart a pod?'' \<Longrightarrow>
   search seeded_world q k s = (Inr [], s\<lparr>trace := trace s @ [BackendQuery q k]\<rparr>)"
  by (simp add: search_eq seeded_world_def)

lemma seeded_kb_search_other:
  "q \<noteq> ''How do I restart a pod?'' \<Longrightarrow>
   search_knowledge_base seeded_world q k initial_state =
     (Inr [], \<lparr>cache_store = Map.empty,
               trace = [CacheGet (''kb_search:'' @ q), BackendQuery q k]\<rparr>)"
  by (simp add: search_knowledge_base_def Let_def then_do_def cache_get_eq ret_def
      seeded_search_other initial_state_def)

lemma borderline_kb_search:
  "search_knowledge_base
     (seeded_world\<lparr>collection_query := (\<lambda>q k. Inr [pod_entry 0.35])\<rparr>) ''restart pod'' 3
     initial_state =
     (Inr [pod_match 0.35],
      \<lparr>cache_store = [''kb_search:restart pod'' \<mapsto> ([pod_match 0.35], 3600)],
       trace = [CacheGet ''kb_search:restart pod'', BackendQuery ''restart pod'' 3,
                CacheSet ''kb_search:restart pod'' [pod_match 0.35] 3600]\<rparr>)"
  by (simp add: search_knowledge_base_def Let_def then_do_def cache_get_eq cache_set_eq ret_def
      search_eq initial_state_def seeded_world_def format_pod_entry)

theorem strict_gate_answer_witness:
  "answer_question seeded_world ''our postgres is down in prod'' initial_state =
     (Inr \<lparr>kb_found = False, kb_answer = None, kb_source = None, kb_confidence = ''none'',
           kb_search_attempted = None, kb_all_results = None, kb_error = None\<rparr>,
      \<lparr>cache_store = Map.empty,
       trace = [CacheGet ''kb_search:our postgres is down in prod'',
                BackendQuery ''our postgres is down in prod'' 3]\<rparr>)
   \<and> answer_question (seeded_world\<lparr>collection_query := (\<lambda>q k. Inr [pod_entry 0.35])\<rparr>)
        ''restart pod'' initial_state =
     (Inr \<lparr>kb_found = False, kb_answer = None, kb_source = None, kb_confidence = ''low'',
           kb_search_attempted = Some True, kb_all_results = None, kb_error = None\<rparr>,
      \<lparr>cache_store = [''kb_search:restart pod'' \<mapsto> ([pod_match 0.35], 3600)],
       trace = [CacheGet ''kb_search:restart pod'', BackendQuery ''restart pod'' 3,
                CacheSet ''kb_search:restart pod'' [pod_match 0.35] 3600]\<rparr>)"
proof -
  let ?w = "seeded_world\<lparr>collection_query := (\<lambda>q k. Inr [pod_entry 0.35])\<rparr>"
  have e1: "search_knowledge_base seeded_world ''our postgres is down in prod'' 3 initial_state =
     (Inr [], \<lparr>cache_store = Map.empty,
               trace = [CacheGet ''kb_search:our postgres is down in prod'',
                        BackendQuery ''our postgres is down in prod'' 3]\<rparr>)
     \<and> filter strict_gate [] = []"
    using seeded_kb_search_other [of "''our postgres is down in prod''" 3] by simp
  have e2: "search_knowledge_base ?w ''restart pod'' 3 initial_state =
     (Inr [pod_match 0.35],
      \<lparr>cache_store = [''kb_search:restart pod'' \<mapsto> ([pod_match 0.35], 3600)],
       trace = [CacheGet ''kb_search:restart pod'', BackendQuery ''restart pod'' 3,
                CacheSet ''kb_search:restart pod'' [pod_match 0.35] 3600]\<rparr>)
     \<and> filter strict_gate [pod_match 0.35] = []"
    using borderline_kb_search by (simp add: strict_gate_def pod_match_def relevance_of_def)
  note t1 = strict_gate_answer [of "pod_match 0.35" seeded_world
      "''our postgres is down in prod''" initial_state]
  note t2 = strict_gate_answer [of "pod_match 0.35" ?w "''restart pod''" initial_state]
  from t1 e1 have a: "answer_question seeded_world ''our postgres is down in prod'' initial_state =
     (Inr \<lparr>kb_found = False, kb_answer = None, kb_source = None,
           kb_confidence = (if ([] :: kb_match list) = [] then ''none'' else ''low''),
           kb_search_attempted = (if ([] :: kb_match list) = [] then None else Some True),
           kb_all_results = None, kb_error = None\<rparr>,
      \<lparr>cache_store = Map.empty,
       trace = [CacheGet ''kb_search:our postgres is down in prod'',
                BackendQuery ''our postgres is down in prod'' 3]\<rparr>)"
    by blast
  from t2 e2 have b: "answer_question ?w ''restart pod'' initial_state =
     (Inr \<lparr>kb_found = False, kb_answer = None, kb_source = None,
           kb_confidence = (if [pod_match 0.35] = [] then ''none'' else ''low''),
           kb_search_attempted = (if [pod_match 0.35] = [] then None else Some True),
           kb_all_results = None, kb_error = None\<rparr>,
      \<lparr>cache_store = [''kb_search:restart pod'' \<mapsto> ([pod_match 0.35], 3600)],
       trace = [CacheGet ''kb_search:restart pod'', BackendQuery ''restart pod'' 3,
                CacheSet ''kb_search:restart pod'' [pod_match 0.35] 3600]\<rparr>)"
    by blast
  from a b show ?thesis by simp
qed

lemma classify_inquiry_eq:
  "classify_inquiry w q s =
     (Inr (case classifier_chain w q of
             Inl e \<Rightarrow> default_classification
           | Inr response \<Rightarrow> parse_response response),
      s\<lparr>trace := trace s @ [ClassifierCall q]\<rparr>)"
  by (simp add: classify_inquiry_def invoke_classifier_chain_def prog_defs split: sum.splits)




lemma parse_well_formed:
  "parse_response (''URGENCY: high'' @ newline @ ''CATEGORY: database'' @ newline @
                   ''NEEDS_TICKET: yes'') =
     \<lparr>c_urgency = Some ''high'', c_category = Some ''database'', c_needs_ticket = Some True\<rparr>"
  by (simp add: parse_response_def parse_line_def newline_def empty_classification_def
      strip_def is_space_def lower_def lower_char_def replace_char_def Let_def)

lemma lower_char_idem: "lower_char (lower_char c) = lower_char c"
  by (simp add: lower_char_def)

lemma lower_idem: "lower (lower s) = lower s"
  by (simp add: lower_def lower_char_idem)

lemma parse_line_lower:
  assumes "\<forall>u. c_urgency c = Some u \<longrightarrow> lower u = u"
  shows "\<forall>u. c_urgency (parse_line line c) = Some u \<longrightarrow> lower u = u"
  using assms by (auto simp: parse_line_def Let_def lower_idem)

lemma parse_lines_lower:
  "\<forall>u. c_urgency c = Some u \<longrightarrow> lower u = u \<Longrightarrow>
   \<forall>u. c_urgency (parse_lines ls c) = Some u \<longrightarrow> lower u = u"
proof (induction ls arbitrary: c)
  case Nil
  then show ?case by simp
next
  case (Cons line ls)
  show ?case
    using Cons.IH [OF parse_line_lower [OF Cons.prems]] by simp
qed

lemma classify_inquiry_lower:
  assumes "classify_inquiry w q s = (Inr c, s')" "c_urgency c = Some u"
  shows "lower u = u"
proof (cases "classifier_chain w q")
  case (Inl e)
  with assms have "u = ''medium''"
    by (auto simp: classify_inquiry_eq default_classification_def)
  then show ?thesis by (simp add: lower_def lower_char_def)
next
  case (Inr response)
  with assms have c: "c = parse_lines (split_on CHR 0x0A response) empty_classification"
    by (auto simp: classify_inquiry_eq parse_response_def)
  have "\<forall>u. c_urgency empty_classification = Some u \<longrightarrow> lower u = u"
    by (simp add: empty_classification_def)
  from parse_lines_lower [OF this] c assms(2) show ?thesis by blast
qed

lemma urgency_to_priority_cases:
  "urgency_to_priority u =
     (if lower u = ''low'' then ''Low''
      else if lower u = ''medium'' then ''Medium''
      else if lower u = ''high'' then ''High''
      else if lower u = ''critical'' then ''Critical''
      else ''Medium'')"
  by (simp add: urgency_to_priority_def get_default_def)

lemma route_inquiry_fallback:
  assumes "keyword_match (lower q) = None"
  shows "route_inquiry w q category s =
     (Inr (case router_chain w q (if category = [] then ''general'' else category) of
             Inl e \<Rightarrow>
               \<lparr>r_team = ''platform'', r_method = ''default'', r_confidence = ''low'',
                r_reason = ''Default routing due to error''\<rparr>
           | Inr response \<Rightarrow>
               \<lparr>r_team = extract_team response, r_method = ''llm'', r_confidence = ''medium'',
                r_reason = strip response\<rparr>),
      s\<lparr>trace := trace s @ [RouterCall q (if category = [] then ''general'' else category)]\<rparr>)"
  using assms
  by (simp add: route_inquiry_def invoke_router_chain_def prog_defs Let_def split: sum.splits)

lemma route_inquiry_total: "\<exists>rt s'. route_inquiry w q category s = (Inr rt, s')"
proof (cases "keyword_match (lower q)")
  case None
  then show ?thesis using route_inquiry_fallback by blast
next
  case (Some team)
  then show ?thesis using route_inquiry_keyword by blast
qed

lemma process_inquiry_answer:
  assumes "classify_inquiry w q s = (Inr c, s1)" "answer_question w q s1 = (Inr kb, s2)"
    "kb_found kb \<and> (kb_confidence kb = ''high'' \<or> kb_confidence kb = ''medium'')"
  shows "process_inquiry w q u ch env dl s =
     (Inr \<lparr>res_timestamp = utcnow w, res_question = q,
              res_user_id = u, res_channel_id = ch,
              res_environment = env, res_deadline = dl,
              res_steps = [''classified'', ''searched_kb'', ''answered_from_kb''],
              res_classification = c, res_knowledge_base = kb,
              res_action = ''answer_from_kb'',
              res_answer = Some (kb_answer kb), res_source = Some (kb_source kb),
              res_requires_ticket = False,
              res_routing = None, res_assigned_team = None, res_ticket_details = None,
              res_completed = True\<rparr>, s2)"
  using assms by (auto simp: process_inquiry_def then_do_def ret_def)

lemma process_inquiry_ticket:
  assumes "classify_inquiry w q s = (Inr c, s1)" "answer_question w q s1 = (Inr kb, s2)"
    "\<not> (kb_found kb \<and> (kb_confidence kb = ''high'' \<or> kb_confidence kb = ''medium''))"
    "route_inquiry w q (get_default (c_category c) []) s2 = (Inr rt, s3)"
  shows "process_inquiry w q u ch env dl s =
     (Inr \<lparr>res_timestamp = utcnow w, res_question = q,
                res_user_id = u, res_channel_id = ch,
                res_environment = env, res_deadline = dl,
                res_steps = [''classified'', ''searched_kb'', ''routed_to_team'',
                             ''generated_ticket_details''],
                res_classification = c, res_knowledge_base = kb,
                res_action = ''create_ticket'',
                res_answer = None, res_source = None,
                res_requires_ticket = True,
                res_routing = Some rt, res_assigned_team = Some (r_team rt),
                res_ticket_details =
                  Some (generate_ticket_details q c (r_team rt) env dl),
                res_completed = True\<rparr>, s3)"
  using assms by (auto simp: process_inquiry_def then_do_def ret_def)

lemma process_inquiry_raise:
  assumes "classify_inquiry w q s = (Inr c, s1)" "answer_question w q s1 = (Inl e, s2)"
  shows "process_inquiry w q u ch env dl s = (Inl e, s2)"
  using assms by (simp add: process_inquiry_def then_do_def)

lemma process_inquiry_returns:
  assumes "classify_inquiry w q s = (Inr c, s1)" "answer_question w q s1 = (Inr kb, s2)"
  shows "\<exists>r s'. process_inquiry w q u ch env dl s = (Inr r, s') \<and> res_completed r"
proof -
  obtain rt s3 where rt: "route_inquiry w q (get_default (c_category c) []) s2 = (Inr rt, s3)"
    using route_inquiry_total by blast
  show ?thesis
  proof (cases "kb_found kb \<and> (kb_confidence kb = ''high'' \<or> kb_confidence kb = ''medium'')")
    case True
    show ?thesis unfolding process_inquiry_answer [OF assms True] by simp
  next
    case False
    show ?thesis unfolding process_inquiry_ticket [OF assms False rt] by simp
  qed
qed

section \<open>The branch of the supervisor\<close>

text \<open>
  C1. \<open>process_inquiry\<close> classifies, asks the knowledge agent, and then takes exactly one
  branch. If the knowledge result has \<open>found\<close> and confidence \<open>high\<close> or \<open>medium\<close>, the
  action is \<open>answer_from_kb\<close>, answer and source are those of the knowledge result, there is
  no routing decision, no assigned team and no ticket draft, and the router is not called
  (the final state is the one left by the knowledge agent). Otherwise the action is
  \<open>create_ticket\<close>, the routing decision is what \<open>route_inquiry\<close> returns for the question
  and the category of the classification (the empty string when the classification has no
  category), the ticket draft is generated for the routed team, and there is no answer.
  This holds of every result the knowledge agent lets the supervisor produce: when
  \<open>answer_question\<close> raises, \<open>process_inquiry\<close> raises the same exception and has no result.
\<close>

theorem process_inquiry_branches:
  "\<exists>c s1.
     classify_inquiry w q s = (Inr c, s1)
     \<and> (\<forall>e s2. answer_question w q s1 = (Inl e, s2) \<longrightarrow>
           process_inquiry w q u ch env dl s = (Inl e, s2))
     \<and> (\<forall>kb s2. answer_question w q s1 = (Inr kb, s2) \<longrightarrow>
       (if kb_found kb \<and> (kb_confidence kb = ''high'' \<or> kb_confidence kb = ''medium'')
        then \<exists>r a m.
               process_inquiry w q u ch env dl s = (Inr r, s2)
               \<and> res_action r = ''answer_from_kb''
               \<and> kb_answer kb = Some a \<and> res_answer r = Some (Some a)
               \<and> kb_source kb = Some m \<and> res_source r = Some (Some m)
               \<and> res_routing r = None \<and> res_assigned_team r = None
               \<and> res_ticket_details r = None
               \<and> res_classification r = c \<and> res_knowledge_base r = kb
        else \<exists>r rt s3.
               route_inquiry w q (get_default (c_category c) []) s2 = (Inr rt, s3)
               \<and> process_inquiry w q u ch env dl s = (Inr r, s3)
               \<and> res_action r = ''create_ticket''
               \<and> res_routing r = Some rt \<and> res_assigned_team r = Some (r_team rt)
               \<and> res_ticket_details r = Some (generate_ticket_details q c (r_team rt) env dl)
               \<and> res_answer r = None \<and> res_source r = None
               \<and> res_classification r = c \<and> res_knowledge_base r = kb))"
proof -
  obtain c s1 where c: "classify_inquiry w q s = (Inr c, s1)"
    using classify_inquiry_eq by blast
  have raise: "\<forall>e s2. answer_question w q s1 = (Inl e, s2) \<longrightarrow>
           process_inquiry w q u ch env dl s = (Inl e, s2)"
    using process_inquiry_raise [OF c] by blast
  have ret: "\<forall>kb s2. answer_question w q s1 = (Inr kb, s2) \<longrightarrow>
       (if kb_found kb \<and> (kb_confidence kb = ''high'' \<or> kb_confidence kb = ''medium'')
        then \<exists>r a m.
               process_inquiry w q u ch env dl s = (Inr r, s2)
               \<and> res_action r = ''answer_from_kb''
               \<and> kb_answer kb = Some a \<and> res_answer r = Some (Some a)
               \<and> kb_source kb = Some m \<and> res_source r = Some (Some m)
               \<and> res_routing r = None \<and> res_assigned_team r = None
               \<and> res_ticket_details r = None
               \<and> res_classification r = c \<and> res_knowledge_base r = kb
        else \<exists>r rt s3.
               route_inquiry w q (get_default (c_category c) []) s2 = (Inr rt, s3)
               \<and> process_inquiry w q u ch env dl s = (Inr r, s3)
               \<and> res_action r = ''create_ticket''
               \<and> res_routing r = Some rt \<and> res_assigned_team r = Some (r_team rt)
               \<and> res_ticket_details r = Some (generate_ticket_details q c (r_team rt) env dl)
               \<and> res_answer r = None \<and> res_source r = None
               \<and> res_classification r = c \<and> res_knowledge_base r = kb)"
  proof (intro allI impI)
    fix kb s2
    assume kb: "answer_question w q s1 = (Inr kb, s2)"
    obtain rt s3 where rt: "route_inquiry w q (get_default (c_category c) []) s2 = (Inr rt, s3)"
      using route_inquiry_total by blast
    show "(if kb_found kb \<and> (kb_confidence kb = ''high'' \<or> kb_confidence kb = ''medium'')
        then \<exists>r a m.
               process_inquiry w q u ch env dl s = (Inr r, s2)
               \<and> res_action r = ''answer_from_kb''
               \<and> kb_answer kb = Some a \<and> res_answer r = Some (Some a)
               \<and> kb_source kb = Some m \<and> res_source r = Some (Some m)
               \<and> res_routing r = None \<and> res_assigned_team r = None
               \<and> res_ticket_details r = None
               \<and> res_classification r = c \<and> res_knowledge_base r = kb
        else \<exists>r rt s3.
               route_inquiry w q (get_default (c_category c) []) s2 = (Inr rt, s3)
               \<and> process_inquiry w q u ch env dl s = (Inr r, s3)
               \<and> res_action r = ''create_ticket''
               \<and> res_routing r = Some rt \<and> res_assigned_team r = Some (r_team rt)
               \<and> res_ticket_details r = Some (generate_ticket_details q c (r_team rt) env dl)
               \<and> res_answer r = None \<and> res_source r = None
               \<and> res_classification r = c \<and> res_knowledge_base r = kb)"
    proof (cases "kb_found kb \<and> (kb_confidence kb = ''high'' \<or> kb_confidence kb = ''medium'')")
      case True
      then obtain a m where am: "kb_answer kb = Some a" "kb_source kb = Some m"
        using answer_question_found_high [OF kb] by blast
      have "\<exists>r a m.
               process_inquiry w q u ch env dl s = (Inr r, s2)
               \<and> res_action r = ''answer_from_kb''
               \<and> kb_answer kb = Some a \<and> res_answer r = Some (Some a)
               \<and> kb_source kb = Some m \<and> res_source r = Some (Some m)
               \<and> res_routing r = None \<and> res_assigned_team r = None
               \<and> res_ticket_details r = None
               \<and> res_classification r = c \<and> res_knowledge_base r = kb"
        unfolding process_inquiry_answer [OF c kb True] using am by simp
      then show ?thesis unfolding if_P [OF True] .
    next
      case False
      have "\<exists>r rt s3.
               route_inquiry w q (get_default (c_category c) []) s2 = (Inr rt, s3)
               \<and> process_inquiry w q u ch env dl s = (Inr r, s3)
               \<and> res_action r = ''create_ticket''
               \<and> res_routing r = Some rt \<and> res_assigned_team r = Some (r_team rt)
               \<and> res_ticket_details r = Some (generate_ticket_details q c (r_team rt) env dl)
               \<and> res_answer r = None \<and> res_source r = None
               \<and> res_classification r = c \<and> res_knowledge_base r = kb"
        unfolding process_inquiry_ticket [OF c kb False rt] using rt by simp
      then show ?thesis unfolding if_not_P [OF False] .
    qed
  qed
  from c raise ret show ?thesis by blast
qed

section \<open>The classifier and its fallback\<close>




section \<open>Ticket details\<close>

text \<open>
  C8. The summary of the ticket draft is the question when it has at most 100 characters
  and its first 97 characters followed by \<open>...\<close> otherwise, so it never exceeds 100
  characters. The labels are the team, the category, the urgency, \<open>automated\<close> and
  \<open>infrastructure\<close> (with \<open>general\<close> and \<open>medium\<close> for a category or urgency the
  classification lacks). The priority maps \<open>low\<close>, \<open>medium\<close>, \<open>high\<close> and \<open>critical\<close> to
  \<open>Low\<close>, \<open>Medium\<close>, \<open>High\<close> and \<open>Critical\<close> and every other urgency to \<open>Medium\<close>; the
  urgency is compared lower-cased, and every urgency the classifier produces is lower-case
  already.
\<close>

theorem ticket_details_synthesis:
  "t_summary (generate_ticket_details q c team env dl) =
     (if 100 < length q then take 97 q @ ''...'' else q)
   \<and> length (t_summary (generate_ticket_details q c team env dl)) \<le> 100
   \<and> t_labels (generate_ticket_details q c team env dl) =
       [team, get_default (c_category c) ''general'', get_default (c_urgency c) ''medium'',
        ''automated'', ''infrastructure'']
   \<and> (\<forall>cat urg. c_category c = Some cat \<and> c_urgency c = Some urg \<longrightarrow>
         t_labels (generate_ticket_details q c team env dl) =
           [team, cat, urg, ''automated'', ''infrastructure'']
         \<and> t_priority (generate_ticket_details q c team env dl) = urgency_to_priority urg)
   \<and> (c_urgency c = None \<longrightarrow> t_priority (generate_ticket_details q c team env dl) = ''Medium'')
   \<and> urgency_to_priority ''low'' = ''Low''
   \<and> urgency_to_priority ''medium'' = ''Medium''
   \<and> urgency_to_priority ''high'' = ''High''
   \<and> urgency_to_priority ''critical'' = ''Critical''
   \<and> (\<forall>urg. lower urg \<notin> set [''low'', ''medium'', ''high'', ''critical''] \<longrightarrow>
         urgency_to_priority urg = ''Medium'')
   \<and> (\<forall>w s c' s' urg. classify_inquiry w q s = (Inr c', s') \<and> c_urgency c' = Some urg \<longrightarrow>
         lower urg = urg)"
proof (intro conjI allI impI)
  show "length (t_summary (generate_ticket_details q c team env dl)) \<le> 100"
    by (simp add: generate_ticket_details_def)
  show "\<And>urg. lower urg \<notin> set [''low'', ''medium'', ''high'', ''critical''] \<Longrightarrow>
         urgency_to_priority urg = ''Medium''"
    by (simp add: urgency_to_priority_cases)
  show "\<And>w s c' s' urg. classify_inquiry w q s = (Inr c', s') \<and> c_urgency c' = Some urg \<Longrightarrow>
         lower urg = urg"
    using classify_inquiry_lower by blast
  show "c_urgency c = None \<Longrightarrow> t_priority (generate_ticket_details q c team env dl) = ''Medium''"
    by (simp add: generate_ticket_details_def get_default_def urgency_to_priority_cases
        lower_def lower_char_def)
qed (simp_all add: generate_ticket_details_def get_default_def urgency_to_priority_cases
      lower_def lower_char_def)

lemma client_classifier_indep:
  "client_get (w\<lparr>classifier_chain := f\<rparr>) key = client_get w key"
  "client_setex (w\<lparr>classifier_chain := f\<rparr>) key ttl v = client_setex w key ttl v"
  by (rule ext, simp add: client_get_def client_setex_def)+

lemma search_knowledge_base_classifier_indep:
  "search_knowledge_base (w\<lparr>classifier_chain := f\<rparr>) q k = search_knowledge_base w q k"
  by (simp add: search_knowledge_base_def cache_get_def cache_set_def search_def
      client_classifier_indep cong: list.case_cong option.case_cong if_cong)

lemma answer_question_classifier_indep:
  "answer_question (w\<lparr>classifier_chain := f\<rparr>) q = answer_question w q"
  by (simp add: answer_question_def search_knowledge_base_classifier_indep
      invoke_knowledge_chain_def cong: list.case_cong if_cong)

lemma route_inquiry_classifier_indep:
  "route_inquiry (w\<lparr>classifier_chain := f\<rparr>) q category = route_inquiry w q category"
  by (simp add: route_inquiry_def invoke_router_chain_def Let_def cong: if_cong)

lemma generate_ticket_details_fields:
  assumes "c_urgency c1 = c_urgency c2" "c_category c1 = c_category c2"
  shows "generate_ticket_details q c1 team env dl = generate_ticket_details q c2 team env dl"
  using assms by (simp add: generate_ticket_details_def)

section \<open>The needs_ticket flag\<close>

text \<open>
  C9. Take two runs of \<open>process_inquiry\<close> on the same question and state whose collaborators
  differ in the classifier model only, and whose classifications agree on urgency and
  category (so they differ at most in \<open>needs_ticket\<close>). The runs end alike. When one
  returns, so does the other, they end in the same state (the same calls were made), and
  their results are equal in every field except the classification itself: same action,
  same answer and source, same routing decision, same assigned team and same ticket draft.
  When one raises, the other raises the same exception in the same state.
\<close>

theorem needs_ticket_not_consulted:
  assumes "classify_inquiry w q s = (Inr c1, s1)"
    and "classify_inquiry (w\<lparr>classifier_chain := f\<rparr>) q s = (Inr c2, s2)"
    and "c_urgency c1 = c_urgency c2" and "c_category c1 = c_category c2"
  shows "case process_inquiry w q u ch env dl s of
           (Inr r, t) \<Rightarrow>
             process_inquiry (w\<lparr>classifier_chain := f\<rparr>) q u ch env dl s =
               (Inr (r\<lparr>res_classification := c2\<rparr>), t)
             \<and> res_classification r = c1
         | (Inl e, t) \<Rightarrow>
             process_inquiry (w\<lparr>classifier_chain := f\<rparr>) q u ch env dl s = (Inl e, t)"
proof -
  let ?w = "w\<lparr>classifier_chain := f\<rparr>"
  have s12: "s2 = s1" using assms(1,2) by (simp add: classify_inquiry_eq)
  note c2 = assms(2) [unfolded s12]
  obtain x t where x: "answer_question w q s1 = (x, t)"
    by (cases "answer_question w q s1") blast
  show ?thesis
  proof (cases x)
    case (Inl e)
    with x have kb: "answer_question w q s1 = (Inl e, t)" by simp
    then have kb': "answer_question ?w q s1 = (Inl e, t)"
      by (simp add: answer_question_classifier_indep)
    show ?thesis
      unfolding process_inquiry_raise [OF assms(1) kb] process_inquiry_raise [OF c2 kb']
      by simp
  next
    case (Inr kb)
    with x have kb: "answer_question w q s1 = (Inr kb, t)" by simp
    then have kb': "answer_question ?w q s1 = (Inr kb, t)"
      by (simp add: answer_question_classifier_indep)
    show ?thesis
    proof (cases "kb_found kb \<and> (kb_confidence kb = ''high'' \<or> kb_confidence kb = ''medium'')")
      case True
      show ?thesis
        unfolding process_inquiry_answer [OF assms(1) kb True]
          process_inquiry_answer [OF c2 kb' True]
        by simp
    next
      case False
      obtain rt t' where rt: "route_inquiry w q (get_default (c_category c1) []) t = (Inr rt, t')"
        using route_inquiry_total by blast
      then have rt': "route_inquiry ?w q (get_default (c_category c2) []) t = (Inr rt, t')"
        using assms(4) by (simp add: route_inquiry_classifier_indep)
      show ?thesis
        unfolding process_inquiry_ticket [OF assms(1) kb False rt]
          process_inquiry_ticket [OF c2 kb' False rt']
        using generate_ticket_details_fields [OF assms(3,4)] by simp
    qed
  qed
qed

lemma process_inquiry_answered:
  assumes "process_inquiry w q u ch env dl s = (Inr r, s')" "res_action r = ''answer_from_kb''"
  shows "kb_found (res_knowledge_base r) \<and> kb_confidence (res_knowledge_base r) = ''high''"
proof -
  obtain c s1 where c: "classify_inquiry w q s = (Inr c, s1)"
    using classify_inquiry_eq by blast
  obtain x s2 where x: "answer_question w q s1 = (x, s2)"
    by (cases "answer_question w q s1") blast
  show ?thesis
  proof (cases x)
    case (Inl e)
    with x have "answer_question w q s1 = (Inl e, s2)" by simp
    from process_inquiry_raise [OF c this] assms(1) show ?thesis by simp
  next
    case (Inr kb)
    with x have kb: "answer_question w q s1 = (Inr kb, s2)" by simp
    obtain rt s3 where rt: "route_inquiry w q (get_default (c_category c) []) s2 = (Inr rt, s3)"
      using route_inquiry_total by blast
    show ?thesis
    proof (cases "kb_found kb \<and> (kb_confidence kb = ''high'' \<or> kb_confidence kb = ''medium'')")
      case True
      then have "kb_confidence kb = ''high''" using answer_question_found_high [OF kb] by blast
      with True assms(1) show ?thesis
        unfolding process_inquiry_answer [OF c kb True] by auto
    next
      case False
      from assms show ?thesis
        unfolding process_inquiry_ticket [OF c kb False rt] by auto
    qed
  qed
qed

lemma search_gate_threshold:
  assumes "search w q k s = (Inr ms, s')" "m \<in> set ms"
  shows "strict_gate m \<longleftrightarrow> m_score m < 0.3"
proof -
  have "m_relevance m = relevance_of (m_score m)"
    using search_relevance [OF assms(1)] assms(2) by blast
  then show ?thesis
    by (auto simp: strict_gate_def relevance_of_def)
qed

section \<open>Confidence of a found answer\<close>

text \<open>
  C10. Whenever \<open>answer_question\<close> returns \<open>found = True\<close>, its confidence is \<open>high\<close>, never
  \<open>medium\<close>. For candidates that come from \<open>search\<close> the gate is the same as distance below
  \<open>0.3\<close>. So whenever \<open>process_inquiry\<close> answers from the knowledge base, the confidence of
  the knowledge result is \<open>high\<close>.
\<close>

theorem found_confidence_high:
  "(\<forall>kb s'. answer_question w q s = (Inr kb, s') \<and> kb_found kb \<longrightarrow> kb_confidence kb = ''high'')
   \<and> (\<forall>ms s' m. search w q k s = (Inr ms, s') \<and> m \<in> set ms \<longrightarrow>
         (strict_gate m \<longleftrightarrow> m_score m < 0.3))
   \<and> (\<forall>r s'. process_inquiry w q u ch env dl s = (Inr r, s')
               \<and> res_action r = ''answer_from_kb'' \<longrightarrow>
         kb_found (res_knowledge_base r) \<and> kb_confidence (res_knowledge_base r) = ''high'')"
proof (intro conjI allI impI)
  fix kb s'
  assume "answer_question w q s = (Inr kb, s') \<and> kb_found kb"
  then show "kb_confidence kb = ''high''"
    using answer_question_found_high [of w q s kb s'] by blast
next
  fix ms s' m
  assume "search w q k s = (Inr ms, s') \<and> m \<in> set ms"
  then show "strict_gate m \<longleftrightarrow> m_score m < 0.3"
    using search_gate_threshold [of w q k s ms s' m] by blast
next
  fix r s'
  assume "process_inquiry w q u ch env dl s = (Inr r, s') \<and> res_action r = ''answer_from_kb''"
  then have both:
    "kb_found (res_knowledge_base r) \<and> kb_confidence (res_knowledge_base r) = ''high''"
    using process_inquiry_answered [of w q u ch env dl s r s'] by blast
  from both show "kb_found (res_knowledge_base r)" by blast
  from both show "kb_confidence (res_knowledge_base r) = ''high''" by blast
qed

lemma pod_match_gate: "filter strict_gate [pod_match 0.1] = [pod_match 0.1]"
  by (simp add: strict_gate_def pod_match_def relevance_of_def)

lemma pod_match_formatted: "\<exists>formatted. format_results [pod_match d] = Inr formatted"
  by (simp add: format_results_def format_result_def pod_match_def)

lemma seeded_kb_search_pod:
  assumes "cache_store s ''kb_search:How do I restart a pod?'' = None"
  shows "search_knowledge_base seeded_world ''How do I restart a pod?'' 3 s =
     (Inr [pod_match 0.1],
      s\<lparr>trace := trace s @ [CacheGet ''kb_search:How do I restart a pod?'',
                              BackendQuery ''How do I restart a pod?'' 3,
                              CacheSet ''kb_search:How do I restart a pod?'' [pod_match 0.1] 3600],
        cache_store := (cache_store s)(''kb_search:How do I restart a pod?'' \<mapsto>
                          ([pod_match 0.1], 3600))\<rparr>)"
proof -
  have up: "redis_up seeded_world" by (simp add: seeded_world_def)
  show ?thesis
    using assms up
    by (simp add: search_knowledge_base_def Let_def then_do_def cache_get_eq cache_set_eq ret_def
        seeded_search_pod)
qed

lemma seeded_answer_pod:
  assumes "cache_store s ''kb_search:How do I restart a pod?'' = None"
  shows "fst (answer_question seeded_world ''How do I restart a pod?'' s) =
     Inr \<lparr>kb_found = True, kb_answer = Some ''Restart it with kubectl.'',
          kb_source = Some (pod_match 0.1), kb_confidence = ''high'',
          kb_search_attempted = None, kb_all_results = Some [pod_match 0.1],
          kb_error = None\<rparr>"
proof -
  obtain formatted where f: "format_results [pod_match 0.1] = Inr formatted"
    using pod_match_formatted by blast
  show ?thesis
    unfolding answer_question_synth [OF seeded_kb_search_pod [OF assms] pod_match_gate f]
    by (simp add: seeded_world_def pod_match_def relevance_of_def)
qed

lemma seeded_classify:
  "classify_inquiry seeded_world q s =
     (Inr \<lparr>c_urgency = Some ''high'', c_category = Some ''database'',
           c_needs_ticket = Some True\<rparr>, s\<lparr>trace := trace s @ [ClassifierCall q]\<rparr>)"
proof -
  have "classifier_chain seeded_world q =
          Inr (''URGENCY: high'' @ newline @ ''CATEGORY: database'' @ newline @
               ''NEEDS_TICKET: yes'')"
    by (simp add: seeded_world_def)
  then show ?thesis
    unfolding classify_inquiry_eq by (simp only: sum.case parse_well_formed)
qed

lemma postgres_keyword:
  "keyword_match (lower ''our postgres is down in prod'') = Some ''database''"
proof -
  have l: "lower ''our postgres is down in prod'' = ''our postgres is down in prod''"
    by (simp add: lower_def lower_char_def)
  have s: "team_scores ''our postgres is down in prod'' =
             [(''platform'', 0), (''devops'', 0), (''database'', 1), (''security'', 0),
              (''network'', 0)]"
    by (simp add: team_scores_def TEAMS_def)
  show ?thesis by (simp add: keyword_match_def s l)
qed

lemma help_keyword: "keyword_match (lower ''Help me please'') = None"
proof -
  have l: "lower ''Help me please'' = ''help me please''"
    by (simp add: lower_def lower_char_def)
  have s: "team_scores ''help me please'' =
             [(''platform'', 0), (''devops'', 0), (''database'', 0), (''security'', 0),
              (''network'', 0)]"
    by (simp add: team_scores_def TEAMS_def)
  show ?thesis by (simp add: keyword_match_def s l)
qed

theorem process_inquiry_branches_witness:
  "res_action (projr (fst (process_inquiry seeded_world ''How do I restart a pod?''
       ''U1'' ''C1'' None None initial_state))) = ''answer_from_kb''
   \<and> res_answer (projr (fst (process_inquiry seeded_world ''How do I restart a pod?''
       ''U1'' ''C1'' None None initial_state))) = Some (Some ''Restart it with kubectl.'')
   \<and> res_routing (projr (fst (process_inquiry seeded_world ''How do I restart a pod?''
       ''U1'' ''C1'' None None initial_state))) = None
   \<and> res_ticket_details (projr (fst (process_inquiry seeded_world ''How do I restart a pod?''
       ''U1'' ''C1'' None None initial_state))) = None
   \<and> res_action (projr (fst (process_inquiry seeded_world ''our postgres is down in prod''
       ''U1'' ''C1'' None None initial_state))) = ''create_ticket''
   \<and> res_answer (projr (fst (process_inquiry seeded_world ''our postgres is down in prod''
       ''U1'' ''C1'' None None initial_state))) = None
   \<and> res_assigned_team (projr (fst (process_inquiry seeded_world ''our postgres is down in prod''
       ''U1'' ''C1'' None None initial_state))) = Some ''database''
   \<and> res_ticket_details (projr (fst (process_inquiry seeded_world ''our postgres is down in prod''
       ''U1'' ''C1'' None None initial_state))) =
       Some (generate_ticket_details ''our postgres is down in prod''
              \<lparr>c_urgency = Some ''high'', c_category = Some ''database'',
               c_needs_ticket = Some True\<rparr> ''database'' None None)"
proof -
  let ?pod = "''How do I restart a pod?''"
  let ?pg = "''our postgres is down in prod''"
  let ?c = "\<lparr>c_urgency = Some ''high'', c_category = Some ''database'',
               c_needs_ticket = Some True\<rparr>"
  let ?s1 = "\<lambda>q. initial_state\<lparr>trace := trace initial_state @ [ClassifierCall q]\<rparr>"
  obtain c s1 where
    c: "classify_inquiry seeded_world ?pod initial_state = (Inr c, s1)"
    and all: "\<forall>kb s2. answer_question seeded_world ?pod s1 = (Inr kb, s2) \<longrightarrow>
       (if kb_found kb \<and> (kb_confidence kb = ''high'' \<or> kb_confidence kb = ''medium'')
        then \<exists>r a m.
               process_inquiry seeded_world ?pod ''U1'' ''C1'' None None initial_state = (Inr r, s2)
               \<and> res_action r = ''answer_from_kb''
               \<and> kb_answer kb = Some a \<and> res_answer r = Some (Some a)
               \<and> kb_source kb = Some m \<and> res_source r = Some (Some m)
               \<and> res_routing r = None \<and> res_assigned_team r = None
               \<and> res_ticket_details r = None
               \<and> res_classification r = c \<and> res_knowledge_base r = kb
        else \<exists>r rt s3.
               route_inquiry seeded_world ?pod (get_default (c_category c) []) s2 = (Inr rt, s3)
               \<and> process_inquiry seeded_world ?pod ''U1'' ''C1'' None None initial_state = (Inr r, s3)
               \<and> res_action r = ''create_ticket''
               \<and> res_routing r = Some rt \<and> res_assigned_team r = Some (r_team rt)
               \<and> res_ticket_details r =
                   Some (generate_ticket_details ?pod c (r_team rt) None None)
               \<and> res_answer r = None \<and> res_source r = None
               \<and> res_classification r = c \<and> res_knowledge_base r = kb)"
    using process_inquiry_branches [of seeded_world ?pod initial_state "''U1''" "''C1''" None None]
    by blast
  from c have s1: "s1 = ?s1 ?pod" by (simp add: seeded_classify)
  have "cache_store s1 ''kb_search:How do I restart a pod?'' = None"
    unfolding s1 by (simp add: initial_state_def)
  note e = seeded_answer_pod [OF this]
  obtain kb s2 where kb: "answer_question seeded_world ?pod s1 = (Inr kb, s2)"
    using e by (cases "answer_question seeded_world ?pod s1") auto
  from e kb have kbv: "kb =
     \<lparr>kb_found = True, kb_answer = Some ''Restart it with kubectl.'',
          kb_source = Some (pod_match 0.1), kb_confidence = ''high'',
          kb_search_attempted = None, kb_all_results = Some [pod_match 0.1],
          kb_error = None\<rparr>"
    by simp
  from all kb have br: "if kb_found kb \<and> (kb_confidence kb = ''high'' \<or> kb_confidence kb = ''medium'')
        then \<exists>r a m.
               process_inquiry seeded_world ?pod ''U1'' ''C1'' None None initial_state = (Inr r, s2)
               \<and> res_action r = ''answer_from_kb''
               \<and> kb_answer kb = Some a \<and> res_answer r = Some (Some a)
               \<and> kb_source kb = Some m \<and> res_source r = Some (Some m)
               \<and> res_routing r = None \<and> res_assigned_team r = None
               \<and> res_ticket_details r = None
               \<and> res_classification r = c \<and> res_knowledge_base r = kb
        else \<exists>r rt s3.
               route_inquiry seeded_world ?pod (get_default (c_category c) []) s2 = (Inr rt, s3)
               \<and> process_inquiry seeded_world ?pod ''U1'' ''C1'' None None initial_state = (Inr r, s3)
               \<and> res_action r = ''create_ticket''
               \<and> res_routing r = Some rt \<and> res_assigned_team r = Some (r_team rt)
               \<and> res_ticket_details r =
                   Some (generate_ticket_details ?pod c (r_team rt) None None)
               \<and> res_answer r = None \<and> res_source r = None
               \<and> res_classification r = c \<and> res_knowledge_base r = kb"
    by blast
  from br kbv obtain r where
    "process_inquiry seeded_world ?pod ''U1'' ''C1'' None None initial_state = (Inr r, s2)"
    "res_action r = ''answer_from_kb''" "res_answer r = Some (Some ''Restart it with kubectl.'')"
    "res_routing r = None" "res_ticket_details r = None"
    by auto
  then have a: "res_action (projr (fst (process_inquiry seeded_world ?pod
       ''U1'' ''C1'' None None initial_state))) = ''answer_from_kb''
   \<and> res_answer (projr (fst (process_inquiry seeded_world ?pod
       ''U1'' ''C1'' None None initial_state))) = Some (Some ''Restart it with kubectl.'')
   \<and> res_routing (projr (fst (process_inquiry seeded_world ?pod
       ''U1'' ''C1'' None None initial_state))) = None
   \<and> res_ticket_details (projr (fst (process_inquiry seeded_world ?pod
       ''U1'' ''C1'' None None initial_state))) = None"
    by simp
  obtain c' s1' where
    c': "classify_inquiry seeded_world ?pg initial_state = (Inr c', s1')"
    and all': "\<forall>kb s2. answer_question seeded_world ?pg s1' = (Inr kb, s2) \<longrightarrow>
       (if kb_found kb \<and> (kb_confidence kb = ''high'' \<or> kb_confidence kb = ''medium'')
        then \<exists>r a m.
               process_inquiry seeded_world ?pg ''U1'' ''C1'' None None initial_state = (Inr r, s2)
               \<and> res_action r = ''answer_from_kb''
               \<and> kb_answer kb = Some a \<and> res_answer r = Some (Some a)
               \<and> kb_source kb = Some m \<and> res_source r = Some (Some m)
               \<and> res_routing r = None \<and> res_assigned_team r = None
               \<and> res_ticket_details r = None
               \<and> res_classification r = c' \<and> res_knowledge_base r = kb
        else \<exists>r rt s3.
               route_inquiry seeded_world ?pg (get_default (c_category c') []) s2 = (Inr rt, s3)
               \<and> process_inquiry seeded_world ?pg ''U1'' ''C1'' None None initial_state = (Inr r, s3)
               \<and> res_action r = ''create_ticket''
               \<and> res_routing r = Some rt \<and> res_assigned_team r = Some (r_team rt)
               \<and> res_ticket_details r =
                   Some (generate_ticket_details ?pg c' (r_team rt) None None)
               \<and> res_answer r = None \<and> res_source r = None
               \<and> res_classification r = c' \<and> res_knowledge_base r = kb)"
    using process_inquiry_branches [of seeded_world ?pg initial_state "''U1''" "''C1''" None None]
    by blast
  from c' have cv: "c' = ?c" and s1': "s1' = ?s1 ?pg" by (simp_all add: seeded_classify)
  have sk: "search_knowledge_base seeded_world ?pg 3 s1' =
             (Inr [], s1'\<lparr>trace := trace s1' @ [CacheGet (''kb_search:'' @ ?pg),
                                                 BackendQuery ?pg 3]\<rparr>)"
    unfolding s1'
    by (simp add: search_knowledge_base_def Let_def then_do_def cache_get_eq ret_def
        seeded_search_other initial_state_def)
  note kbe = answer_question_empty [OF sk]
  from all' kbe obtain kb' s2' where
    nf: "\<not> kb_found kb'"
    and br': "if kb_found kb' \<and> (kb_confidence kb' = ''high'' \<or> kb_confidence kb' = ''medium'')
        then \<exists>r a m.
               process_inquiry seeded_world ?pg ''U1'' ''C1'' None None initial_state = (Inr r, s2')
               \<and> res_action r = ''answer_from_kb''
               \<and> kb_answer kb' = Some a \<and> res_answer r = Some (Some a)
               \<and> kb_source kb' = Some m \<and> res_source r = Some (Some m)
               \<and> res_routing r = None \<and> res_assigned_team r = None
               \<and> res_ticket_details r = None
               \<and> res_classification r = c' \<and> res_knowledge_base r = kb'
        else \<exists>r rt s3.
               route_inquiry seeded_world ?pg (get_default (c_category c') []) s2' = (Inr rt, s3)
               \<and> process_inquiry seeded_world ?pg ''U1'' ''C1'' None None initial_state = (Inr r, s3)
               \<and> res_action r = ''create_ticket''
               \<and> res_routing r = Some rt \<and> res_assigned_team r = Some (r_team rt)
               \<and> res_ticket_details r =
                   Some (generate_ticket_details ?pg c' (r_team rt) None None)
               \<and> res_answer r = None \<and> res_source r = None
               \<and> res_classification r = c' \<and> res_knowledge_base r = kb'"
    by fastforce
  from br' nf obtain r rt s3 where
    rt: "route_inquiry seeded_world ?pg (get_default (c_category c') []) s2' = (Inr rt, s3)"
    and p: "process_inquiry seeded_world ?pg ''U1'' ''C1'' None None initial_state = (Inr r, s3)"
      "res_action r = ''create_ticket''" "res_assigned_team r = Some (r_team rt)"
      "res_ticket_details r = Some (generate_ticket_details ?pg c' (r_team rt) None None)"
      "res_answer r = None"
    by auto
  from rt have "r_team rt = ''database''"
    unfolding route_inquiry_keyword [OF postgres_keyword] by auto
  with p cv have b: "res_action (projr (fst (process_inquiry seeded_world ?pg
       ''U1'' ''C1'' None None initial_state))) = ''create_ticket''
   \<and> res_answer (projr (fst (process_inquiry seeded_world ?pg
       ''U1'' ''C1'' None None initial_state))) = None
   \<and> res_assigned_team (projr (fst (process_inquiry seeded_world ?pg
       ''U1'' ''C1'' None None initial_state))) = Some ''database''
   \<and> res_ticket_details (projr (fst (process_inquiry seeded_world ?pg
       ''U1'' ''C1'' None None initial_state))) =
       Some (generate_ticket_details ?pg ?c ''database'' None None)"
    by simp
  from a b show ?thesis by blast
qed

theorem ticket_details_synthesis_witness:
  "t_labels (generate_ticket_details ''our postgres is down in prod''
              \<lparr>c_urgency = Some ''high'', c_category = Some ''database'',
               c_needs_ticket = Some True\<rparr> ''database'' None None) =
     [''database'', ''database'', ''high'', ''automated'', ''infrastructure'']
   \<and> t_priority (generate_ticket_details ''our postgres is down in prod''
              \<lparr>c_urgency = Some ''high'', c_category = Some ''database'',
               c_needs_ticket = Some True\<rparr> ''database'' None None) = ''High''
   \<and> t_summary (generate_ticket_details ''our postgres is down in prod''
              \<lparr>c_urgency = Some ''high'', c_category = Some ''database'',
               c_needs_ticket = Some True\<rparr> ''database'' None None) =
       ''our postgres is down in prod''
   \<and> t_summary (generate_ticket_details (replicate 150 CHR ''a'')
              \<lparr>c_urgency = Some ''high'', c_category = Some ''database'',
               c_needs_ticket = Some True\<rparr> ''database'' None None) =
       replicate 97 CHR ''a'' @ ''...''
   \<and> urgency_to_priority ''urgent'' = ''Medium''"
proof -
  let ?c = "\<lparr>c_urgency = Some ''high'', c_category = Some ''database'',
               c_needs_ticket = Some True\<rparr>"
  note t = ticket_details_synthesis [of "''our postgres is down in prod''" ?c "''database''"
      None None]
  note t2 = ticket_details_synthesis [of "replicate 150 CHR ''a''" ?c "''database''" None None]
  have h: "c_category ?c = Some ''database'' \<and> c_urgency ?c = Some ''high''" by simp
  have u: "lower ''urgent'' \<notin> set [''low'', ''medium'', ''high'', ''critical'']"
    by (simp add: lower_def lower_char_def)
  from t h have a: "t_labels (generate_ticket_details ''our postgres is down in prod'' ?c
         ''database'' None None) =
     [''database'', ''database'', ''high'', ''automated'', ''infrastructure'']
     \<and> t_priority (generate_ticket_details ''our postgres is down in prod'' ?c
         ''database'' None None) = urgency_to_priority ''high''"
    by blast
  from t have p: "urgency_to_priority ''high'' = ''High''" by blast
  from t u have d: "urgency_to_priority ''urgent'' = ''Medium''" by blast
  from t have b: "t_summary (generate_ticket_details ''our postgres is down in prod'' ?c
         ''database'' None None) =
       (if 100 < length ''our postgres is down in prod''
        then take 97 ''our postgres is down in prod'' @ ''...''
        else ''our postgres is down in prod'')"
    by blast
  from t2 have c: "t_summary (generate_ticket_details (replicate 150 CHR ''a'') ?c
         ''database'' None None) =
       (if 100 < length (replicate 150 CHR ''a'')
        then take 97 (replicate 150 CHR ''a'') @ ''...''
        else replicate 150 CHR ''a'')"
    by blast
  from a p b c d show ?thesis by simp
qed

theorem found_confidence_high_witness:
  "fst (answer_question seeded_world ''How do I restart a pod?'' initial_state) =
     Inr \<lparr>kb_found = True, kb_answer = Some ''Restart it with kubectl.'',
          kb_source = Some (pod_match 0.1), kb_confidence = ''high'',
          kb_search_attempted = None, kb_all_results = Some [pod_match 0.1],
          kb_error = None\<rparr>
   \<and> kb_confidence (projr (fst (answer_question seeded_world ''How do I restart a pod?''
        initial_state))) = ''high''"
proof -
  have n: "cache_store initial_state ''kb_search:How do I restart a pod?'' = None"
    by (simp add: initial_state_def)
  note e = seeded_answer_pod [OF n]
  obtain kb s' where k: "answer_question seeded_world ''How do I restart a pod?'' initial_state =
      (Inr kb, s')"
    using e by (cases "answer_question seeded_world ''How do I restart a pod?'' initial_state") auto
  with e have f: "kb_found kb" by simp
  from k f found_confidence_high [of seeded_world "''How do I restart a pod?''" initial_state]
  have "kb_confidence kb = ''high''" by blast
  with k have "kb_confidence (projr (fst (answer_question seeded_world
      ''How do I restart a pod?'' initial_state))) = ''high''"
    by simp
  with e show ?thesis by blast
qed

lemma failing_kb_search:
  assumes "(\<exists>e. collection_query w q 3 = Inl e) \<or> collection_query w q 3 = Inr []"
    and "\<not> redis_up w"
  shows "search_knowledge_base w q 3 s =
           (Inr [], s\<lparr>trace := trace s @ [CacheGet (''kb_search:'' @ q), BackendQuery q 3]\<rparr>)"
proof -
  have "(case collection_query w q 3 of
           Inl e \<Rightarrow> []
         | Inr hits \<Rightarrow> (case format_hits hits of Inl e \<Rightarrow> [] | Inr ms \<Rightarrow> ms)) = []"
    using assms(1) by auto
  then show ?thesis
    using assms(2)
    by (simp add: search_knowledge_base_def Let_def then_do_def cache_get_eq ret_def search_eq)
qed

lemma failing_route:
  assumes "router_chain w q ''other'' = Inl e"
  shows "\<exists>s'. route_inquiry w q ''other'' s =
     (Inr (case keyword_match (lower q) of
             None \<Rightarrow>
               \<lparr>r_team = ''platform'', r_method = ''default'', r_confidence = ''low'',
                r_reason = ''Default routing due to error''\<rparr>
           | Some team \<Rightarrow>
               \<lparr>r_team = team, r_method = ''keyword'', r_confidence = ''high'',
                r_reason = ''Matched keywords for '' @ team @ '' team''\<rparr>), s')"
proof (cases "keyword_match (lower q)")
  case None
  then show ?thesis
    using assms by (simp add: route_inquiry_fallback)
next
  case (Some team)
  then show ?thesis
    by (simp add: route_inquiry_keyword)
qed

lemma default_ticket:
  "t_priority (generate_ticket_details q default_classification team env dl) = ''Medium''
   \<and> t_labels (generate_ticket_details q default_classification team env dl) =
       [team, ''other'', ''medium'', ''automated'', ''infrastructure'']"
  by (simp add: generate_ticket_details_def default_classification_def get_default_def
      urgency_to_priority_cases lower_def lower_char_def)

lemma process_inquiry_outage:
  assumes "classifier_chain w q = Inl e1"
    and "(\<exists>e. collection_query w q 3 = Inl e) \<or> collection_query w q 3 = Inr []"
    and "\<not> redis_up w"
    and "router_chain w q ''other'' = Inl e2"
  shows "\<exists>r s' rt.
           process_inquiry w q u ch env dl s = (Inr r, s') \<and> res_completed r
           \<and> res_classification r = default_classification
           \<and> \<not> kb_found (res_knowledge_base r)
           \<and> res_action r = ''create_ticket''
           \<and> res_routing r = Some rt
           \<and> rt = (case keyword_match (lower q) of
                     None \<Rightarrow>
                       \<lparr>r_team = ''platform'', r_method = ''default'', r_confidence = ''low'',
                        r_reason = ''Default routing due to error''\<rparr>
                   | Some team \<Rightarrow>
                       \<lparr>r_team = team, r_method = ''keyword'', r_confidence = ''high'',
                        r_reason = ''Matched keywords for '' @ team @ '' team''\<rparr>)
           \<and> res_ticket_details r =
               Some (generate_ticket_details q default_classification (r_team rt) env dl)"
proof -
  let ?s1 = "s\<lparr>trace := trace s @ [ClassifierCall q]\<rparr>"
  let ?rt = "case keyword_match (lower q) of
                     None \<Rightarrow>
                       \<lparr>r_team = ''platform'', r_method = ''default'', r_confidence = ''low'',
                        r_reason = ''Default routing due to error''\<rparr>
                   | Some team \<Rightarrow>
                       \<lparr>r_team = team, r_method = ''keyword'', r_confidence = ''high'',
                        r_reason = ''Matched keywords for '' @ team @ '' team''\<rparr>"
  have c: "classify_inquiry w q s = (Inr default_classification, ?s1)"
    using assms(1) by (simp add: classify_inquiry_eq)
  note sk = failing_kb_search [OF assms(2,3), of ?s1]
  note kb = answer_question_empty [OF sk]
  have cat: "get_default (c_category default_classification) [] = ''other''"
    by (simp add: default_classification_def get_default_def)
  obtain s3 where rt: "route_inquiry w q (get_default (c_category default_classification) [])
      (?s1\<lparr>trace := trace ?s1 @ [CacheGet (''kb_search:'' @ q), BackendQuery q 3]\<rparr>) =
      (Inr ?rt, s3)"
    unfolding cat using failing_route [OF assms(4)] by blast
  let ?kb = "\<lparr>kb_found = False, kb_answer = None, kb_source = None,
                 kb_confidence = ''none'', kb_search_attempted = None,
                 kb_all_results = None, kb_error = None\<rparr>"
  have nf: "\<not> (kb_found ?kb \<and> (kb_confidence ?kb = ''high'' \<or> kb_confidence ?kb = ''medium''))"
    by simp
  show ?thesis
    unfolding process_inquiry_ticket [OF c kb nf rt] by simp
qed

lemma str_items_strings: "str_items (map JString ts) = Inr ts"
  by (induction ts) simp_all

lemma format_each_strings:
  "\<forall>m \<in> set ms. \<exists>ts. m_tags m = JArray (map JString ts)
   \<Longrightarrow> \<exists>parts. format_each i ms = Inr parts"
proof (induction ms arbitrary: i)
  case Nil
  then show ?case by simp
next
  case (Cons m ms)
  obtain ts where t: "m_tags m = JArray (map JString ts)" using Cons.prems by auto
  obtain parts where p: "format_each (Suc i) ms = Inr parts"
    using Cons.IH [of "Suc i"] Cons.prems by auto
  show ?case by (simp add: format_result_def t str_items_strings p)
qed

lemma format_results_strings:
  assumes "\<forall>m \<in> set ms. \<exists>ts. m_tags m = JArray (map JString ts)"
  shows "\<exists>formatted. format_results ms = Inr formatted"
proof -
  obtain parts where "format_each 0 ms = Inr parts"
    using format_each_strings [OF assms] by blast
  then show ?thesis by (simp add: format_results_def)
qed

lemma answer_question_raise_cause:
  assumes "answer_question w q s = (Inl e, s')"
  shows "\<exists>cands. search_knowledge_base w q 3 s = (Inr cands, s')
           \<and> format_results (filter strict_gate cands) = Inl e"
proof -
  obtain cands s1 where c: "search_knowledge_base w q 3 s = (Inr cands, s1)"
    using search_knowledge_base_total by blast
  show ?thesis
  proof (cases "filter strict_gate cands")
    case Nil
    from assms show ?thesis
      unfolding answer_question_not_found [OF c Nil] by simp
  next
    case (Cons best rest)
    show ?thesis
    proof (cases "format_results (best # rest)")
      case (Inl e')
      from assms c Cons Inl show ?thesis
        unfolding answer_question_raises [OF c Cons Inl] by simp
    next
      case (Inr formatted)
      from assms show ?thesis
        unfolding answer_question_synth [OF c Cons Inr] by (simp split: sum.splits)
    qed
  qed
qed

lemma process_inquiry_well_tagged:
  assumes "search_knowledge_base w q 3 (s\<lparr>trace := trace s @ [ClassifierCall q]\<rparr>) =
             (Inr cands, s2)"
    and "\<forall>m \<in> set (filter strict_gate cands). \<exists>ts. m_tags m = JArray (map JString ts)"
  shows "\<exists>r s'. process_inquiry w q u ch env dl s = (Inr r, s') \<and> res_completed r"
proof -
  obtain c where c: "classify_inquiry w q s = (Inr c, s\<lparr>trace := trace s @ [ClassifierCall q]\<rparr>)"
    using classify_inquiry_eq by blast
  obtain formatted where "format_results (filter strict_gate cands) = Inr formatted"
    using format_results_strings [OF assms(2)] by blast
  from answer_question_returns [OF assms(1) this] obtain kb s3 where
    "answer_question w q (s\<lparr>trace := trace s @ [ClassifierCall q]\<rparr>) = (Inr kb, s3)"
    by blast
  from process_inquiry_returns [OF c this] show ?thesis .
qed

lemma process_inquiry_raise_cause:
  assumes "process_inquiry w q u ch env dl s = (Inl e, s')"
  shows "\<exists>cands. search_knowledge_base w q 3 (s\<lparr>trace := trace s @ [ClassifierCall q]\<rparr>) =
                   (Inr cands, s')
           \<and> format_results (filter strict_gate cands) = Inl e"
proof -
  let ?s1 = "s\<lparr>trace := trace s @ [ClassifierCall q]\<rparr>"
  obtain c where c: "classify_inquiry w q s = (Inr c, ?s1)"
    using classify_inquiry_eq by blast
  obtain x s2 where x: "answer_question w q ?s1 = (x, s2)"
    by (cases "answer_question w q ?s1") blast
  show ?thesis
  proof (cases x)
    case (Inl e')
    with x have a: "answer_question w q ?s1 = (Inl e', s2)" by simp
    from process_inquiry_raise [OF c a] assms have "e' = e" "s2 = s'" by simp_all
    with a answer_question_raise_cause show ?thesis by blast
  next
    case (Inr kb)
    with x have "answer_question w q ?s1 = (Inr kb, s2)" by simp
    from process_inquiry_returns [OF c this, of u ch env dl] assms show ?thesis by auto
  qed
qed

section \<open>Degradation under collaborator failure\<close>

text \<open>
  C2, as the code has it. No failure of a collaborator makes \<open>process_inquiry\<close> raise: the
  only exception that can leave it comes from formatting the tags of a candidate that passed
  the gate, and whenever those tags are lists of strings it returns a result whose
  \<open>completed\<close> marker is set. Under total collaborator
  failure (the classifier model raises, the search backend raises or returns nothing, Redis
  is down, the router model raises) the result is a ticket drafted with the default
  classification (priority \<open>Medium\<close>, labels with \<open>other\<close> and \<open>medium\<close>). Routing is by
  keyword first, which needs no collaborator: when the lower-cased question contains a team
  keyword the ticket goes to the keyword team with method \<open>keyword\<close> and confidence
  \<open>high\<close>, and only otherwise to \<open>platform\<close> with method \<open>default\<close> and confidence \<open>low\<close>.
\<close>

theorem process_inquiry_degrades:
  "(\<forall>cands s2.
      search_knowledge_base w q 3 (s\<lparr>trace := trace s @ [ClassifierCall q]\<rparr>) = (Inr cands, s2)
      \<and> (\<forall>m \<in> set (filter strict_gate cands). \<exists>ts. m_tags m = JArray (map JString ts)) \<longrightarrow>
      (\<exists>r s'. process_inquiry w q u ch env dl s = (Inr r, s') \<and> res_completed r))
   \<and> (\<forall>e s'. process_inquiry w q u ch env dl s = (Inl e, s') \<longrightarrow>
        (\<exists>cands.
           search_knowledge_base w q 3 (s\<lparr>trace := trace s @ [ClassifierCall q]\<rparr>) =
             (Inr cands, s')
           \<and> format_results (filter strict_gate cands) = Inl e))
   \<and> ((\<exists>e. classifier_chain w q = Inl e)
       \<and> ((\<exists>e. collection_query w q 3 = Inl e) \<or> collection_query w q 3 = Inr [])
       \<and> \<not> redis_up w
       \<and> (\<exists>e. router_chain w q ''other'' = Inl e) \<longrightarrow>
       (\<exists>r s' rt.
           process_inquiry w q u ch env dl s = (Inr r, s') \<and> res_completed r
           \<and> res_classification r = default_classification
           \<and> \<not> kb_found (res_knowledge_base r)
           \<and> res_action r = ''create_ticket''
           \<and> res_routing r = Some rt
           \<and> rt = (case keyword_match (lower q) of
                     None \<Rightarrow>
                       \<lparr>r_team = ''platform'', r_method = ''default'', r_confidence = ''low'',
                        r_reason = ''Default routing due to error''\<rparr>
                   | Some team \<Rightarrow>
                       \<lparr>r_team = team, r_method = ''keyword'', r_confidence = ''high'',
                        r_reason = ''Matched keywords for '' @ team @ '' team''\<rparr>)
           \<and> res_ticket_details r =
               Some (generate_ticket_details q default_classification (r_team rt) env dl)
           \<and> t_priority (generate_ticket_details q default_classification (r_team rt) env dl) =
               ''Medium''
           \<and> t_labels (generate_ticket_details q default_classification (r_team rt) env dl) =
               [r_team rt, ''other'', ''medium'', ''automated'', ''infrastructure'']))"
proof (intro conjI impI)
  show "\<forall>cands s2.
      search_knowledge_base w q 3 (s\<lparr>trace := trace s @ [ClassifierCall q]\<rparr>) = (Inr cands, s2)
      \<and> (\<forall>m \<in> set (filter strict_gate cands). \<exists>ts. m_tags m = JArray (map JString ts)) \<longrightarrow>
      (\<exists>r s'. process_inquiry w q u ch env dl s = (Inr r, s') \<and> res_completed r)"
    using process_inquiry_well_tagged by blast
  show "\<forall>e s'. process_inquiry w q u ch env dl s = (Inl e, s') \<longrightarrow>
        (\<exists>cands.
           search_knowledge_base w q 3 (s\<lparr>trace := trace s @ [ClassifierCall q]\<rparr>) =
             (Inr cands, s')
           \<and> format_results (filter strict_gate cands) = Inl e)"
    using process_inquiry_raise_cause by blast
next
  assume h: "(\<exists>e. classifier_chain w q = Inl e)
       \<and> ((\<exists>e. collection_query w q 3 = Inl e) \<or> collection_query w q 3 = Inr [])
       \<and> \<not> redis_up w
       \<and> (\<exists>e. router_chain w q ''other'' = Inl e)"
  then obtain e1 e2 where "classifier_chain w q = Inl e1" "router_chain w q ''other'' = Inl e2"
    by blast
  from process_inquiry_outage [OF this(1) _ _ this(2), of u ch env dl s] h default_ticket
  show "\<exists>r s' rt.
           process_inquiry w q u ch env dl s = (Inr r, s') \<and> res_completed r
           \<and> res_classification r = default_classification
           \<and> \<not> kb_found (res_knowledge_base r)
           \<and> res_action r = ''create_ticket''
           \<and> res_routing r = Some rt
           \<and> rt = (case keyword_match (lower q) of
                     None \<Rightarrow>
                       \<lparr>r_team = ''platform'', r_method = ''default'', r_confidence = ''low'',
                        r_reason = ''Default routing due to error''\<rparr>
                   | Some team \<Rightarrow>
                       \<lparr>r_team = team, r_method = ''keyword'', r_confidence = ''high'',
                        r_reason = ''Matched keywords for '' @ team @ '' team''\<rparr>)
           \<and> res_ticket_details r =
               Some (generate_ticket_details q default_classification (r_team rt) env dl)
           \<and> t_priority (generate_ticket_details q default_classification (r_team rt) env dl) =
               ''Medium''
           \<and> t_labels (generate_ticket_details q default_classification (r_team rt) env dl) =
               [r_team rt, ''other'', ''medium'', ''automated'', ''infrastructure'']"
    by blast
qed

lemma outage_facts:
  "classifier_chain outage_world q = Inl (ModelCallError ''timeout'')"
  "collection_query outage_world q 3 = Inl (SearchBackendError ''unavailable'')"
  "\<not> redis_up outage_world"
  "router_chain outage_world q ''other'' = Inl (ModelCallError ''timeout'')"
  by (simp_all add: outage_world_def)

theorem process_inquiry_degrades_witness:
  "res_completed (projr (fst (process_inquiry outage_world ''Help me please'' ''U1'' ''C1''
      None None initial_state)))
   \<and> res_classification (projr (fst (process_inquiry outage_world ''Help me please'' ''U1''
        ''C1'' None None initial_state))) =
       \<lparr>c_urgency = Some ''medium'', c_category = Some ''other'', c_needs_ticket = Some True\<rparr>
   \<and> res_action (projr (fst (process_inquiry outage_world ''Help me please'' ''U1'' ''C1''
        None None initial_state))) = ''create_ticket''
   \<and> res_routing (projr (fst (process_inquiry outage_world ''Help me please'' ''U1'' ''C1''
        None None initial_state))) =
       Some \<lparr>r_team = ''platform'', r_method = ''default'', r_confidence = ''low'',
             r_reason = ''Default routing due to error''\<rparr>
   \<and> isl (fst (process_inquiry seeded_world ''How do I restart a pod?'' ''U1'' ''C1''
        None None initial_state)) = False
   \<and> res_completed (projr (fst (process_inquiry seeded_world ''How do I restart a pod?''
        ''U1'' ''C1'' None None initial_state)))"
proof -
  let ?q = "''Help me please''"
  let ?pod = "''How do I restart a pod?''"
  have h: "(\<exists>e. classifier_chain outage_world ?q = Inl e)
       \<and> ((\<exists>e. collection_query outage_world ?q 3 = Inl e)
           \<or> collection_query outage_world ?q 3 = Inr [])
       \<and> \<not> redis_up outage_world
       \<and> (\<exists>e. router_chain outage_world ?q ''other'' = Inl e)"
    by (simp add: outage_facts)
  from h process_inquiry_degrades [where w = outage_world and q = ?q and u = "''U1''"
      and ch = "''C1''" and env = None and dl = None and s = initial_state]
  obtain r s' rt where
    p: "process_inquiry outage_world ?q ''U1'' ''C1'' None None initial_state = (Inr r, s')"
    and f: "res_completed r" "res_classification r = default_classification"
      "res_action r = ''create_ticket''" "res_routing r = Some rt"
    and rt: "rt = (case keyword_match (lower ?q) of
                     None \<Rightarrow>
                       \<lparr>r_team = ''platform'', r_method = ''default'', r_confidence = ''low'',
                        r_reason = ''Default routing due to error''\<rparr>
                   | Some team \<Rightarrow>
                       \<lparr>r_team = team, r_method = ''keyword'', r_confidence = ''high'',
                        r_reason = ''Matched keywords for '' @ team @ '' team''\<rparr>)"
    by blast
  from rt have "rt = \<lparr>r_team = ''platform'', r_method = ''default'', r_confidence = ''low'',
                        r_reason = ''Default routing due to error''\<rparr>"
    by (simp only: help_keyword option.case)
  with p f have a:
    "res_completed (projr (fst (process_inquiry outage_world ?q ''U1'' ''C1''
      None None initial_state)))
   \<and> res_classification (projr (fst (process_inquiry outage_world ?q ''U1''
        ''C1'' None None initial_state))) =
       \<lparr>c_urgency = Some ''medium'', c_category = Some ''other'', c_needs_ticket = Some True\<rparr>
   \<and> res_action (projr (fst (process_inquiry outage_world ?q ''U1'' ''C1''
        None None initial_state))) = ''create_ticket''
   \<and> res_routing (projr (fst (process_inquiry outage_world ?q ''U1'' ''C1''
        None None initial_state))) =
       Some \<lparr>r_team = ''platform'', r_method = ''default'', r_confidence = ''low'',
             r_reason = ''Default routing due to error''\<rparr>"
    by (simp add: default_classification_def)
  let ?s1 = "initial_state\<lparr>trace := trace initial_state @ [ClassifierCall ?pod]\<rparr>"
  have "cache_store ?s1 ''kb_search:How do I restart a pod?'' = None"
    by (simp add: initial_state_def)
  from seeded_kb_search_pod [OF this] obtain s2 where
    sk: "search_knowledge_base seeded_world ?pod 3 ?s1 = (Inr [pod_match 0.1], s2)"
    by blast
  have "m_tags (pod_match 0.1) = JArray (map JString [''k8s'', ''pod''])"
    by (simp add: pod_match_def)
  then have tg: "\<forall>m \<in> set (filter strict_gate [pod_match 0.1]).
                  \<exists>ts. m_tags m = JArray (map JString ts)"
    unfolding pod_match_gate by (metis empty_iff empty_set set_ConsD)
  from sk tg process_inquiry_degrades [where w = seeded_world and q = ?pod and u = "''U1''"
      and ch = "''C1''" and env = None and dl = None and s = initial_state]
  obtain r' t' where
    "process_inquiry seeded_world ?pod ''U1'' ''C1'' None None initial_state = (Inr r', t')"
    "res_completed r'"
    by blast
  then have b: "isl (fst (process_inquiry seeded_world ?pod ''U1'' ''C1''
        None None initial_state)) = False
   \<and> res_completed (projr (fst (process_inquiry seeded_world ?pod
        ''U1'' ''C1'' None None initial_state)))"
    by simp
  from a b show ?thesis by blast
qed

lemma null_tags_raises:
  "fst (process_inquiry null_tags_world ''How do I restart a pod?'' ''U1'' ''C1'' None None
        initial_state) = Inl (TypeError ''can only join an iterable'')"
proof -
  let ?q = "''How do I restart a pod?''"
  let ?m = "(pod_match 0.1)\<lparr>m_tags := JNull\<rparr>"
  let ?s1 = "initial_state\<lparr>trace := trace initial_state @ [ClassifierCall ?q]\<rparr>"
  obtain c where c: "classify_inquiry null_tags_world ?q initial_state = (Inr c, ?s1)"
    using classify_inquiry_eq by blast
  have up: "redis_up null_tags_world"
    and cq: "collection_query null_tags_world ?q 3 =
               Inr [(pod_entry 0.1)\<lparr>md_tags := Some (Inr JNull)\<rparr>]"
    by (simp_all add: null_tags_world_def seeded_world_def)
  have fh: "format_hit ((pod_entry 0.1)\<lparr>md_tags := Some (Inr JNull)\<rparr>) = Inr ?m"
    by (simp add: format_hit_def pod_entry_def pod_match_def get_default_def)
  have "\<exists>s2. search_knowledge_base null_tags_world ?q 3 ?s1 = (Inr [?m], s2)"
    using up
    by (simp add: search_knowledge_base_def Let_def then_do_def cache_get_eq cache_set_eq ret_def
        search_eq cq fh initial_state_def)
  then obtain s2 where sk: "search_knowledge_base null_tags_world ?q 3 ?s1 = (Inr [?m], s2)"
    by blast
  have gate: "filter strict_gate [?m] = [?m]"
    by (simp add: strict_gate_def pod_match_def relevance_of_def)
  have fmt: "format_results [?m] = Inl (TypeError ''can only join an iterable'')"
    by (simp add: format_results_def format_result_def)
  note a = answer_question_raises [OF sk gate fmt]
  show ?thesis
    unfolding process_inquiry_raise [OF c a] by simp
qed

text \<open>
  The claim C2 as written fails twice. With every collaborator failing, a question about
  postgres is still routed to the database team by keyword, not to platform by default.
  And with every collaborator working, a knowledge entry whose stored tags are \<open>null\<close> makes
  \<open>process_inquiry\<close> raise \<open>TypeError\<close>.
\<close>

theorem degradation_counterexample:
  "classifier_chain outage_world ''our postgres is down in prod'' =
     Inl (ModelCallError ''timeout'')
   \<and> collection_query outage_world ''our postgres is down in prod'' 3 =
       Inl (SearchBackendError ''unavailable'')
   \<and> router_chain outage_world ''our postgres is down in prod'' ''other'' =
       Inl (ModelCallError ''timeout'')
   \<and> \<not> redis_up outage_world
   \<and> res_routing (projr (fst (process_inquiry outage_world ''our postgres is down in prod''
        ''U1'' ''C1'' None None initial_state))) =
       Some \<lparr>r_team = ''database'', r_method = ''keyword'', r_confidence = ''high'',
             r_reason = ''Matched keywords for database team''\<rparr>
   \<and> res_routing (projr (fst (process_inquiry outage_world ''our postgres is down in prod''
        ''U1'' ''C1'' None None initial_state))) \<noteq>
       Some \<lparr>r_team = ''platform'', r_method = ''default'', r_confidence = ''low'',
             r_reason = ''Default routing due to error''\<rparr>
   \<and> fst (process_inquiry null_tags_world ''How do I restart a pod?'' ''U1'' ''C1'' None None
        initial_state) = Inl (TypeError ''can only join an iterable'')"
proof -
  let ?q = "''our postgres is down in prod''"
  have d: "(\<exists>e. collection_query outage_world ?q 3 = Inl e)
           \<or> collection_query outage_world ?q 3 = Inr []"
    by (simp add: outage_facts)
  from process_inquiry_outage [OF outage_facts(1) d outage_facts(3) outage_facts(4),
      of "''U1''" "''C1''" None None initial_state]
  obtain r s' rt where
    p: "process_inquiry outage_world ?q ''U1'' ''C1'' None None initial_state = (Inr r, s')"
    and f: "res_routing r = Some rt"
    and rt: "rt = (case keyword_match (lower ?q) of
                     None \<Rightarrow>
                       \<lparr>r_team = ''platform'', r_method = ''default'', r_confidence = ''low'',
                        r_reason = ''Default routing due to error''\<rparr>
                   | Some team \<Rightarrow>
                       \<lparr>r_team = team, r_method = ''keyword'', r_confidence = ''high'',
                        r_reason = ''Matched keywords for '' @ team @ '' team''\<rparr>)"
    by blast
  from rt have "rt = \<lparr>r_team = ''database'', r_method = ''keyword'', r_confidence = ''high'',
                        r_reason = ''Matched keywords for '' @ ''database'' @ '' team''\<rparr>"
    by (simp only: postgres_keyword option.case)
  with p f null_tags_raises show ?thesis by (simp add: outage_facts)
qed

lemma parse_needs_no:
  "parse_response (''URGENCY: high'' @ newline @ ''CATEGORY: database'' @ newline @
                   ''NEEDS_TICKET: no'') =
     \<lparr>c_urgency = Some ''high'', c_category = Some ''database'', c_needs_ticket = Some False\<rparr>"
  by (simp add: parse_response_def parse_line_def newline_def empty_classification_def
      strip_def is_space_def lower_def lower_char_def replace_char_def Let_def)

theorem needs_ticket_not_consulted_witness:
  "\<exists>r t. process_inquiry seeded_world ''our postgres is down in prod'' ''U1'' ''C1'' None None
             initial_state = (Inr r, t)
         \<and> process_inquiry
             (seeded_world\<lparr>classifier_chain :=
                (\<lambda>q. Inr (''URGENCY: high'' @ newline @ ''CATEGORY: database'' @ newline @
                          ''NEEDS_TICKET: no''))\<rparr>)
             ''our postgres is down in prod'' ''U1'' ''C1'' None None initial_state =
             (Inr (r\<lparr>res_classification :=
                       \<lparr>c_urgency = Some ''high'', c_category = Some ''database'',
                        c_needs_ticket = Some False\<rparr>\<rparr>), t)
         \<and> res_classification r =
             \<lparr>c_urgency = Some ''high'', c_category = Some ''database'',
              c_needs_ticket = Some True\<rparr>"
proof -
  let ?q = "''our postgres is down in prod''"
  let ?f = "\<lambda>q :: string. (Inr (''URGENCY: high'' @ newline @ ''CATEGORY: database'' @ newline @
                          ''NEEDS_TICKET: no'') :: error + string)"
  let ?c1 = "\<lparr>c_urgency = Some ''high'', c_category = Some ''database'',
              c_needs_ticket = Some True\<rparr>"
  let ?c2 = "\<lparr>c_urgency = Some ''high'', c_category = Some ''database'',
              c_needs_ticket = Some False\<rparr>"
  let ?s1 = "initial_state\<lparr>trace := trace initial_state @ [ClassifierCall ?q]\<rparr>"
  have a: "classify_inquiry seeded_world ?q initial_state = (Inr ?c1, ?s1)"
    by (rule seeded_classify)
  have "classifier_chain (seeded_world\<lparr>classifier_chain := ?f\<rparr>) ?q =
          Inr (''URGENCY: high'' @ newline @ ''CATEGORY: database'' @ newline @
               ''NEEDS_TICKET: no'')"
    by simp
  then have b: "classify_inquiry (seeded_world\<lparr>classifier_chain := ?f\<rparr>) ?q initial_state =
                  (Inr ?c2, ?s1)"
    unfolding classify_inquiry_eq by (simp only: sum.case parse_needs_no)
  have u: "c_urgency ?c1 = c_urgency ?c2" and c: "c_category ?c1 = c_category ?c2"
    by simp_all
  have sk: "search_knowledge_base seeded_world ?q 3 ?s1 =
             (Inr [], ?s1\<lparr>trace := trace ?s1 @ [CacheGet (''kb_search:'' @ ?q),
                                                 BackendQuery ?q 3]\<rparr>)"
    by (simp add: search_knowledge_base_def Let_def then_do_def cache_get_eq ret_def
        seeded_search_other initial_state_def)
  from process_inquiry_returns [OF a answer_question_empty [OF sk], of "''U1''" "''C1''" None None]
  obtain r t where
    p: "process_inquiry seeded_world ?q ''U1'' ''C1'' None None initial_state = (Inr r, t)"
    by blast
  from needs_ticket_not_consulted [OF a b u c, of "''U1''" "''C1''" None None] p
  have "process_inquiry (seeded_world\<lparr>classifier_chain := ?f\<rparr>) ?q ''U1'' ''C1'' None None
          initial_state = (Inr (r\<lparr>res_classification := ?c2\<rparr>), t)
        \<and> res_classification r = ?c1"
    by simp
  with p show ?thesis by blast
qed

end
